theory Spec2Isabelle
  imports Complex_Main "HOL-Library.Word"
begin

section \<open>Flow run service (run lifecycle manager)\<close>

text \<open>
  Shallow embedding of \<^verbatim>\<open>flowRunService\<close> and its helpers (\<^verbatim>\<open>returnHandlerId\<close>,
  \<^verbatim>\<open>getFlowRunOrCreate\<close>, \<^verbatim>\<open>updateLogs\<close>). The run table and the file table are
  maps from primary key to row; every \<^verbatim>\<open>throw\<close> is an \<open>Inl\<close> result; the job queue,
  the telemetry sink and the exception sink are lists that record what was handed
  to them, in order.
\<close>

subsection \<open>Data\<close>

type_synonym ap_id = string
type_synonym bytes = "8 word list"

text \<open>
  Modelled from the spec: the enum \<^verbatim>\<open>FlowRunStatus\<close> is declared in the shared
  package, which is not among the sources; the spec lists its members.
\<close>

datatype FlowRunStatus = RUNNING | PAUSED | SUCCEEDED | FAILED | STOPPED | INTERNAL_ERROR

text \<open>
  The other enumerations of the shared package, with the members that the service
  names.
\<close>

datatype RunEnvironment = PRODUCTION | TESTING

datatype ExecutionType = BEGIN | RESUME

datatype ProgressUpdateType = NONE | TEST_FLOW

text \<open>
  Modelled from the spec: the tagged union \<^verbatim>\<open>PauseMetadata\<close> is declared in the
  shared package; the spec gives it as \<^verbatim>\<open>{type: DELAY, resumeAt}\<close> or
  \<^verbatim>\<open>{type: WEBHOOK, requestId, handlerId?}\<close>.
\<close>

datatype PauseMetadata =
    DelayPause string
  | WebhookPause string "string option"

text \<open>Values that the service only passes along (payloads, step outputs).\<close>

datatype js_value =
    JUndefined
  | JNull
  | JBoolean bool
  | JNumber int
  | JBigInt int
  | JString string
  | JSymbol string
  | JFunction string
  | JArray "js_value list"
  | JObject "(string \<times> js_value) list"

type_synonym steps = "(string \<times> js_value) list"

record ExecutionState =
  es_steps :: steps

record FlowRun =
  projectId :: ap_id
  flowId :: ap_id
  flowVersionId :: ap_id
  environment :: RunEnvironment
  flowDisplayName :: string
  startTime :: string
  finishTime :: "string option"
  status :: "FlowRunStatus option"
  tasks :: "nat option"
  duration :: "int option"
  logsFileId :: "ap_id option"
  pauseMetadata :: "PauseMetadata option"
  tags :: "string list option"

record FlowVersion =
  fv_id :: ap_id
  fv_flowId :: ap_id
  fv_displayName :: string

record Flow =
  flow_projectId :: ap_id

datatype FileType = FLOW_RUN_LOG

datatype FileCompression = GZIP

record File =
  file_projectId :: ap_id
  file_data :: bytes
  file_type :: FileType
  file_compression :: FileCompression

record Job =
  job_flowRunId :: ap_id
  job_flowRun :: FlowRun
  job_httpRequestId :: "string option"
  job_payload :: js_value
  job_priority :: nat
  job_synchronousHandlerId :: "string option"
  job_executionType :: ExecutionType
  job_progressUpdateType :: ProgressUpdateType

record TelemetryEvent =
  te_project :: ap_id
  te_projectId :: ap_id
  te_flowId :: ap_id
  te_environment :: RunEnvironment

datatype api_error =
    FLOW_RUN_NOT_FOUND ap_id
  | FLOW_VERSION_NOT_FOUND ap_id
  | FLOW_NOT_FOUND ap_id
  | ENTITY_NOT_FOUND ap_id
  | FILE_NOT_FOUND ap_id
  | LOG_TOO_LARGE nat
  | LOG_NOT_PARSABLE ap_id

datatype SideEffect =
    PauseEffect ap_id FlowRun
  | FinishEffect ap_id FlowRun steps

record api_state =
  runs :: "ap_id \<rightharpoonup> FlowRun"
  files :: "ap_id \<rightharpoonup> File"
  queue :: "Job list"
  telemetry :: "TelemetryEvent list"
  handledExceptions :: "api_error list"
  sideEffects :: "SideEffect list"

text \<open>
  The collaborators that are imported by the service but are not part of the
  sources are parameters of the model: the process's handler id
  (\<^verbatim>\<open>webhookResponseWatcher.getServerId()\<close>), the flow-version and flow lookups, the
  job priority, the log serializer with its inverse, and the constant
  \<^verbatim>\<open>MAX_LOG_SIZE\<close>.
\<close>

record api_env =
  getServerId :: string
  flowVersion_getOne :: "ap_id \<Rightarrow> FlowVersion option"
  flow_getOne :: "ap_id \<Rightarrow> ap_id \<Rightarrow> Flow option"
  getJobPriority :: "ap_id \<Rightarrow> string option \<Rightarrow> nat"
  serializeLogs :: "ExecutionState \<Rightarrow> bytes"
  parseLogs :: "bytes \<Rightarrow> steps option"
  MAX_LOG_SIZE :: nat

subsection \<open>returnHandlerId\<close>

text \<open>JavaScript truthiness of an optional string: absent and empty are falsy.\<close>

fun truthy :: "string option \<Rightarrow> bool" where
  "truthy None = False"
| "truthy (Some s) = (s \<noteq> [])"

fun returnHandlerId :: "api_env \<Rightarrow> PauseMetadata option \<Rightarrow> string option \<Rightarrow> string" where
  "returnHandlerId env None requestId = getServerId env"
| "returnHandlerId env (Some (WebhookPause rid h)) requestId =
     (if requestId = Some rid \<and> truthy h then the h else getServerId env)"
| "returnHandlerId env (Some (DelayPause t)) requestId = getServerId env"

subsection \<open>Repository access\<close>

text \<open>
  \<^verbatim>\<open>flowRunRepo().update(id, patch)\<close> changes the row with that id and does nothing
  when there is none; \<^verbatim>\<open>save\<close> writes the row under its id.
\<close>

definition repo_update :: "ap_id \<Rightarrow> (FlowRun \<Rightarrow> FlowRun) \<Rightarrow> api_state \<Rightarrow> api_state" where
  "repo_update rid f s =
     (case runs s rid of
        None \<Rightarrow> s
      | Some r \<Rightarrow> s\<lparr>runs := (runs s)(rid \<mapsto> f r)\<rparr>)"

definition repo_save :: "ap_id \<Rightarrow> FlowRun \<Rightarrow> api_state \<Rightarrow> api_state" where
  "repo_save rid r s = s\<lparr>runs := (runs s)(rid \<mapsto> r)\<rparr>"

text \<open>
  \<^verbatim>\<open>getOneOrThrow\<close>: \<^verbatim>\<open>findOneBy({projectId, id})\<close>, where an undefined project id
  is no filter.
\<close>

definition getOneOrThrow :: "ap_id \<Rightarrow> ap_id option \<Rightarrow> api_state \<Rightarrow> api_error + FlowRun" where
  "getOneOrThrow rid pid s =
     (case runs s rid of
        None \<Rightarrow> Inl (FLOW_RUN_NOT_FOUND rid)
      | Some r \<Rightarrow>
          (case pid of
             None \<Rightarrow> Inr r
           | Some p \<Rightarrow> if projectId r = p then Inr r else Inl (FLOW_RUN_NOT_FOUND rid)))"

text \<open>
  Modelled from the spec: \<^verbatim>\<open>fileService\<close> is not among the sources; the spec has
  the blob store save and get an artifact by id.
\<close>

definition fileService_save :: "ap_id \<Rightarrow> File \<Rightarrow> api_state \<Rightarrow> api_state" where
  "fileService_save fid f s = s\<lparr>files := (files s)(fid \<mapsto> f)\<rparr>"

definition fileService_getOneOrThrow :: "ap_id \<Rightarrow> api_state \<Rightarrow> api_error + File" where
  "fileService_getOneOrThrow fid s =
     (case files s fid of None \<Rightarrow> Inl (FILE_NOT_FOUND fid) | Some f \<Rightarrow> Inr f)"

definition getOnePopulatedOrThrow ::
  "api_env \<Rightarrow> ap_id \<Rightarrow> ap_id option \<Rightarrow> api_state \<Rightarrow> api_error + (FlowRun \<times> steps)" where
  "getOnePopulatedOrThrow env rid pid s =
     (case getOneOrThrow rid pid s of
        Inl e \<Rightarrow> Inl e
      | Inr r \<Rightarrow>
          (case logsFileId r of
             None \<Rightarrow> Inr (r, [])
           | Some fid \<Rightarrow>
               (case fileService_getOneOrThrow fid s of
                  Inl e \<Rightarrow> Inl e
                | Inr f \<Rightarrow>
                    (case parseLogs env (file_data f) of
                       None \<Rightarrow> Inl (LOG_NOT_PARSABLE fid)
                     | Some st \<Rightarrow> Inr (r, st)))))"

subsection \<open>getFlowRunOrCreate and start\<close>

record GetOrCreateParams =
  goc_id :: "ap_id option"
  goc_projectId :: ap_id
  goc_flowId :: ap_id
  goc_flowVersionId :: ap_id
  goc_flowDisplayName :: string
  goc_environment :: RunEnvironment

text \<open>
  \<open>now\<close> stands for \<^verbatim>\<open>new Date().toISOString()\<close> and \<open>newId\<close> for the value of
  \<^verbatim>\<open>apId()\<close> at this call. \<^verbatim>\<open>if (id)\<close> is JavaScript truthiness.
\<close>

definition getFlowRunOrCreate ::
  "string \<Rightarrow> ap_id \<Rightarrow> GetOrCreateParams \<Rightarrow> api_state \<Rightarrow> api_error + (ap_id \<times> FlowRun)" where
  "getFlowRunOrCreate now newId p s =
     (if truthy (goc_id p)
      then (case getOneOrThrow (the (goc_id p)) (Some (goc_projectId p)) s of
              Inl e \<Rightarrow> Inl e
            | Inr r \<Rightarrow> Inr (the (goc_id p), r))
      else Inr (newId,
             \<lparr>projectId = goc_projectId p,
              flowId = goc_flowId p,
              flowVersionId = goc_flowVersionId p,
              environment = goc_environment p,
              flowDisplayName = goc_flowDisplayName p,
              startTime = now,
              finishTime = None,
              status = None,
              tasks = None,
              duration = None,
              logsFileId = None,
              pauseMetadata = None,
              tags = None\<rparr>))"

record StartParams =
  sp_projectId :: ap_id
  sp_flowVersionId :: ap_id
  sp_flowRunId :: "ap_id option"
  sp_environment :: RunEnvironment
  sp_payload :: js_value
  sp_synchronousHandlerId :: "string option"
  sp_httpRequestId :: "string option"
  sp_progressUpdateType :: ProgressUpdateType
  sp_executionType :: ExecutionType

text \<open>
  Modelled from the spec: \<^verbatim>\<open>flowRunSideEffects.start\<close> is not among the sources;
  the spec has it hand the run to the external job queue together with the
  priority and the synchronous-handler affinity.
\<close>

definition flowRunSideEffects_start :: "Job \<Rightarrow> api_state \<Rightarrow> api_state" where
  "flowRunSideEffects_start j s = s\<lparr>queue := queue s @ [j]\<rparr>"

definition start ::
  "api_env \<Rightarrow> string \<Rightarrow> ap_id \<Rightarrow> StartParams \<Rightarrow> api_state
     \<Rightarrow> (api_error + (ap_id \<times> FlowRun)) \<times> api_state" where
  "start env now newId p s =
     (case flowVersion_getOne env (sp_flowVersionId p) of
        None \<Rightarrow> (Inl (FLOW_VERSION_NOT_FOUND (sp_flowVersionId p)), s)
      | Some flowVersion \<Rightarrow>
          (case flow_getOne env (fv_flowId flowVersion) (sp_projectId p) of
             None \<Rightarrow> (Inl (FLOW_NOT_FOUND (fv_flowId flowVersion)), s)
           | Some flow \<Rightarrow>
               (case getFlowRunOrCreate now newId
                       \<lparr>goc_id = sp_flowRunId p,
                        goc_projectId = flow_projectId flow,
                        goc_flowId = fv_flowId flowVersion,
                        goc_flowVersionId = fv_id flowVersion,
                        goc_flowDisplayName = fv_displayName flowVersion,
                        goc_environment = sp_environment p\<rparr> s of
                  Inl e \<Rightarrow> (Inl e, s)
                | Inr (rid, flowRun) \<Rightarrow>
                    (let savedFlowRun = flowRun\<lparr>status := Some RUNNING\<rparr>;
                         s1 = repo_save rid savedFlowRun s;
                         s2 = s1\<lparr>telemetry := telemetry s1 @
                                 [\<lparr>te_project = flow_projectId flow,
                                   te_projectId = projectId savedFlowRun,
                                   te_flowId = flowId savedFlowRun,
                                   te_environment = environment savedFlowRun\<rparr>]\<rparr>;
                         priority = getJobPriority env (projectId savedFlowRun)
                                      (sp_synchronousHandlerId p)
                     in (Inr (rid, savedFlowRun),
                         flowRunSideEffects_start
                           \<lparr>job_flowRunId = rid,
                            job_flowRun = savedFlowRun,
                            job_httpRequestId = sp_httpRequestId p,
                            job_payload = sp_payload p,
                            job_priority = priority,
                            job_synchronousHandlerId = sp_synchronousHandlerId p,
                            job_executionType = sp_executionType p,
                            job_progressUpdateType = sp_progressUpdateType p\<rparr> s2)))))"

subsection \<open>pause and addToQueue\<close>

record PauseParams =
  pp_flowRunId :: ap_id
  pp_pauseMetadata :: PauseMetadata

definition pause :: "PauseParams \<Rightarrow> api_state \<Rightarrow> (api_error + unit) \<times> api_state" where
  "pause p s =
     (let s1 = repo_update (pp_flowRunId p)
                 (\<lambda>r. r\<lparr>status := Some PAUSED, pauseMetadata := Some (pp_pauseMetadata p)\<rparr>) s
      in case runs s1 (pp_flowRunId p) of
           None \<Rightarrow> (Inl (ENTITY_NOT_FOUND (pp_flowRunId p)), s1)
         | Some flowRun \<Rightarrow>
             (Inr (), s1\<lparr>sideEffects := sideEffects s1 @ [PauseEffect (pp_flowRunId p) flowRun]\<rparr>))"

record AddToQueueParams =
  aq_flowRunId :: ap_id
  aq_requestId :: "string option"
  aq_progressUpdateType :: ProgressUpdateType
  aq_payload :: js_value
  aq_executionType :: ExecutionType

fun matchRequestId :: "PauseMetadata option \<Rightarrow> string option \<Rightarrow> bool" where
  "matchRequestId None requestId = True"
| "matchRequestId (Some (WebhookPause rid h)) requestId = (requestId = Some rid)"
| "matchRequestId (Some (DelayPause t)) requestId = False"

definition addToQueue ::
  "api_env \<Rightarrow> string \<Rightarrow> ap_id \<Rightarrow> AddToQueueParams \<Rightarrow> api_state
     \<Rightarrow> (api_error + unit) \<times> api_state" where
  "addToQueue env now newId p s =
     (case runs s (aq_flowRunId p) of
        None \<Rightarrow> (Inl (FLOW_RUN_NOT_FOUND (aq_flowRunId p)), s)
      | Some flowRunToResume \<Rightarrow>
          (if matchRequestId (pauseMetadata flowRunToResume) (aq_requestId p)
           then (case start env now newId
                        \<lparr>sp_projectId = projectId flowRunToResume,
                         sp_flowVersionId = flowVersionId flowRunToResume,
                         sp_flowRunId = Some (aq_flowRunId p),
                         sp_environment = PRODUCTION,
                         sp_payload = aq_payload p,
                         sp_synchronousHandlerId =
                           Some (returnHandlerId env (pauseMetadata flowRunToResume) (aq_requestId p)),
                         sp_httpRequestId = aq_requestId p,
                         sp_progressUpdateType = aq_progressUpdateType p,
                         sp_executionType = aq_executionType p\<rparr> s of
                   (Inl e, s') \<Rightarrow> (Inl e, s')
                 | (Inr saved, s') \<Rightarrow> (Inr (), s'))
           else (Inr (), s)))"

subsection \<open>updateLogs and updateStatus\<close>

record UpdateLogs =
  ul_flowRunId :: ap_id
  ul_projectId :: ap_id
  ul_executionState :: "ExecutionState option"

definition updateLogs ::
  "api_env \<Rightarrow> ap_id \<Rightarrow> UpdateLogs \<Rightarrow> api_state \<Rightarrow> (api_error + ap_id option) \<times> api_state" where
  "updateLogs env newId p s =
     (case ul_executionState p of
        None \<Rightarrow> (Inr None, s)
      | Some executionState \<Rightarrow>
          (case runs s (ul_flowRunId p) of
             None \<Rightarrow> (Inl (ENTITY_NOT_FOUND (ul_flowRunId p)), s)
           | Some flowRun \<Rightarrow>
               (let serializedLogs = serializeLogs env executionState
                in if length serializedLogs > MAX_LOG_SIZE env
                   then (Inl (LOG_TOO_LARGE (MAX_LOG_SIZE env)),
                         s\<lparr>handledExceptions :=
                             handledExceptions s @ [LOG_TOO_LARGE (MAX_LOG_SIZE env)]\<rparr>)
                   else (let fileId = (case logsFileId flowRun of Some f \<Rightarrow> f | None \<Rightarrow> newId)
                         in (Inr (Some fileId),
                             fileService_save fileId
                               \<lparr>file_projectId = ul_projectId p,
                                file_data = serializedLogs,
                                file_type = FLOW_RUN_LOG,
                                file_compression = GZIP\<rparr> s)))))"

record FinishParams =
  fp_flowRunId :: ap_id
  fp_projectId :: ap_id
  fp_status :: FlowRunStatus
  fp_tasks :: nat
  fp_duration :: "real option"
  fp_executionState :: "ExecutionState option"
  fp_tags :: "string list"

text \<open>
  \<^verbatim>\<open>duration ? Math.floor(Number(duration)) : undefined\<close>, and
  \<^verbatim>\<open>spreadIfDefined(key, value)\<close>, which sets the column only for a defined value.
\<close>

fun flooredDuration :: "real option \<Rightarrow> int option" where
  "flooredDuration None = None"
| "flooredDuration (Some d) = (if d = 0 then None else Some \<lfloor>d\<rfloor>)"

fun spreadIfDefined :: "'a option \<Rightarrow> 'a option \<Rightarrow> 'a option" where
  "spreadIfDefined None old = old"
| "spreadIfDefined (Some v) old = Some v"

definition updateStatus ::
  "api_env \<Rightarrow> string \<Rightarrow> ap_id \<Rightarrow> FinishParams \<Rightarrow> api_state
     \<Rightarrow> (api_error + (FlowRun \<times> steps)) \<times> api_state" where
  "updateStatus env now newId p s =
     (case updateLogs env newId
             \<lparr>ul_flowRunId = fp_flowRunId p,
              ul_projectId = fp_projectId p,
              ul_executionState = fp_executionState p\<rparr> s of
        (Inl e, s1) \<Rightarrow> (Inl e, s1)
      | (Inr logFileId, s1) \<Rightarrow>
          (let s2 = repo_update (fp_flowRunId p)
                      (\<lambda>r. r\<lparr>status := Some (fp_status p),
                             tasks := Some (fp_tasks p),
                             duration := spreadIfDefined (flooredDuration (fp_duration p)) (duration r),
                             logsFileId := spreadIfDefined logFileId (logsFileId r),
                             tags := Some (fp_tags p),
                             finishTime := Some now\<rparr>) s1
           in case getOnePopulatedOrThrow env (fp_flowRunId p) None s2 of
                Inl e \<Rightarrow> (Inl e, s2)
              | Inr (flowRun, st) \<Rightarrow>
                  (Inr (flowRun, st),
                   s2\<lparr>sideEffects := sideEffects s2 @ [FinishEffect (fp_flowRunId p) flowRun st]\<rparr>)))"

subsection \<open>Sequences of service calls\<close>

text \<open>
  A history of the service is a list of calls, each performed on the state the
  previous one left, whether it returned or threw. \<open>apId_fresh\<close> says that the id
  \<^verbatim>\<open>apId()\<close> hands to a call that may create a run is not the id of a run that
  exists already.
\<close>

datatype api_call =
    CallStart string ap_id StartParams
  | CallPause PauseParams
  | CallAddToQueue string ap_id AddToQueueParams
  | CallUpdateStatus string ap_id FinishParams

fun perform :: "api_env \<Rightarrow> api_call \<Rightarrow> api_state \<Rightarrow> api_state" where
  "perform env (CallStart now newId p) s = snd (start env now newId p s)"
| "perform env (CallPause p) s = snd (pause p s)"
| "perform env (CallAddToQueue now newId p) s = snd (addToQueue env now newId p s)"
| "perform env (CallUpdateStatus now newId p) s = snd (updateStatus env now newId p s)"

fun apId_fresh :: "api_call \<Rightarrow> api_state \<Rightarrow> bool" where
  "apId_fresh (CallStart now newId p) s = (runs s newId = None)"
| "apId_fresh (CallPause p) s = True"
| "apId_fresh (CallAddToQueue now newId p) s = (runs s newId = None)"
| "apId_fresh (CallUpdateStatus now newId p) s = True"

fun perform_all :: "api_env \<Rightarrow> api_call list \<Rightarrow> api_state \<Rightarrow> api_state" where
  "perform_all env [] s = s"
| "perform_all env (c # cs) s = perform_all env cs (perform env c s)"

fun all_fresh :: "api_env \<Rightarrow> api_call list \<Rightarrow> api_state \<Rightarrow> bool" where
  "all_fresh env [] s = True"
| "all_fresh env (c # cs) s = (apId_fresh c s \<and> all_fresh env cs (perform env c s))"

section \<open>Trigger hook engine\<close>

text \<open>
  Shallow embedding of \<^verbatim>\<open>triggerHelper.executeTrigger\<close>. The closure variables
  \<^verbatim>\<open>appListeners\<close> and \<^verbatim>\<open>scheduleOptions\<close> are the \<open>hook_state\<close>; the capabilities
  \<^verbatim>\<open>app.createListeners\<close> and \<^verbatim>\<open>setSchedule\<close> of the context are functions on it;
  every \<^verbatim>\<open>throw\<close> is an \<open>Inl\<close> result. The result of \<^verbatim>\<open>executeTrigger\<close> is paired
  with the list of routines of the piece that were invoked, in order, so that
  "the run routine is not invoked" can be stated.
\<close>

subsection \<open>Data\<close>

datatype TriggerStrategy = POLLING | WEBHOOK | APP_WEBHOOK

datatype TriggerHookType = ON_ENABLE | ON_DISABLE | HANDSHAKE | RENEW | RUN | TEST

record Listener =
  events :: "string list"
  identifierValue :: string
  identifierKey :: string

record ScheduleOptions =
  cronExpression :: string
  timezone :: "string option"
  failureCount :: "int option"

datatype engine_error =
    TriggerNameRequired
  | PieceNotFound string string
  | TriggerNotFound string string
  | PropsInvalid "(string \<times> string list) list"
  | InvalidCronExpression string
  | TriggerTypeNotWebhook
  | AppWebhookUrlMissing string
  | WebhookSecretMissing string
  | RunNotArray string
  | HookThrew string

text \<open>
  A routine of a trigger (\<^verbatim>\<open>onEnable\<close>, \<^verbatim>\<open>run\<close>, ...) is code of a piece, not of the
  engine. What the engine sees of one invocation is the sequence of capability
  calls the routine makes and how it ends: with a value or with an exception of
  its own. \<^verbatim>\<open>setSchedule\<close> can throw, and the routine may or may not catch that:
  \<open>SetSchedule\<close> is a call whose exception leaves the routine where it is thrown,
  as an uncaught exception does; \<open>TrySetSchedule\<close> is a call inside a
  \<^verbatim>\<open>try\<close>/\<^verbatim>\<open>catch\<close> of the routine, which goes on with its next call when the
  capability throws.
\<close>

datatype hook_call =
    CreateListeners Listener
  | SetSchedule ScheduleOptions
  | TrySetSchedule ScheduleOptions

datatype 'a outcome = Returns 'a | Throws string

record 'a routine =
  calls :: "hook_call list"
  outcome :: "'a outcome"

record hook_state =
  appListeners :: "Listener list"
  scheduleOptions :: "ScheduleOptions option"

record verify_ctx =
  v_appWebhookUrl :: string
  v_payload :: "js_value option"
  v_webhookSecret :: string

record Trigger =
  trigger_type :: TriggerStrategy
  onEnable :: "unit routine"
  onDisable :: "unit routine"
  onRenew :: "unit routine"
  onHandshake :: "js_value routine"
  test :: "js_value routine"
  run :: "js_value routine"

record Piece =
  getTrigger :: "string \<Rightarrow> Trigger option"
  piece_events :: "(verify_ctx \<Rightarrow> bool outcome) option"

record ExecuteTriggerOperation =
  hookType :: TriggerHookType
  pieceName :: string
  pieceVersion :: string
  triggerName :: "string option"
  triggerPayload :: "js_value option"
  appWebhookUrl :: "string option"
  webhookSecret :: "string option"

text \<open>
  The collaborators that are not part of the sources are parameters:
  \<^verbatim>\<open>pieceLoader.loadPieceOrThrow\<close>, the field errors that the variable service finds
  in the trigger's input, \<^verbatim>\<open>isValidCron\<close> of the cron-validator library, and
  \<^verbatim>\<open>JSON.stringify\<close> on a caught exception.
\<close>

record engine_env =
  loadPiece :: "string \<Rightarrow> string \<Rightarrow> Piece option"
  validationErrors :: "ExecuteTriggerOperation \<Rightarrow> Trigger \<Rightarrow> (string \<times> string list) list"
  isValidCron :: "string \<Rightarrow> bool"
  stringify :: "engine_error \<Rightarrow> string"

datatype ExecuteTriggerResponse =
    DisableResponse
  | EnableResponse "Listener list" "ScheduleOptions option"
  | RenewResponse bool
  | HandshakeResponse bool "js_value option" "string option"
  | TestResponse bool "string option" js_value
  | RunResponse bool "string option" "js_value list"

datatype routine_name = OnEnable | OnDisable | OnRenew | OnHandshake | Test | Run | Verify

type_synonym engine_result = "(engine_error + ExecuteTriggerResponse) \<times> routine_name list"

subsection \<open>The context's capabilities\<close>

definition createListeners :: "Listener \<Rightarrow> hook_state \<Rightarrow> hook_state" where
  "createListeners l st =
     st\<lparr>appListeners := appListeners st @
          [\<lparr>events = events l, identifierValue = identifierValue l,
            identifierKey = identifierKey l\<rparr>]\<rparr>"

definition setSchedule ::
  "(string \<Rightarrow> bool) \<Rightarrow> ScheduleOptions \<Rightarrow> hook_state \<Rightarrow> (engine_error + unit) \<times> hook_state" where
  "setSchedule valid request st =
     (if \<not> valid (cronExpression request)
      then (Inl (InvalidCronExpression (cronExpression request)), st)
      else (Inr (),
            st\<lparr>scheduleOptions := Some
                 \<lparr>cronExpression = cronExpression request,
                  timezone = Some (case timezone request of None \<Rightarrow> ''UTC'' | Some z \<Rightarrow> z),
                  failureCount = Some (case failureCount request of None \<Rightarrow> 0 | Some n \<Rightarrow> n)\<rparr>\<rparr>))"

fun run_calls ::
  "(string \<Rightarrow> bool) \<Rightarrow> hook_call list \<Rightarrow> hook_state \<Rightarrow> (engine_error + unit) \<times> hook_state" where
  "run_calls valid [] st = (Inr (), st)"
| "run_calls valid (CreateListeners l # cs) st = run_calls valid cs (createListeners l st)"
| "run_calls valid (SetSchedule request # cs) st =
     (case setSchedule valid request st of
        (Inl e, st') \<Rightarrow> (Inl e, st')
      | (Inr u, st') \<Rightarrow> run_calls valid cs st')"
| "run_calls valid (TrySetSchedule request # cs) st =
     (case setSchedule valid request st of
        (res, st') \<Rightarrow> run_calls valid cs st')"

definition invoke ::
  "(string \<Rightarrow> bool) \<Rightarrow> 'a routine \<Rightarrow> hook_state \<Rightarrow> (engine_error + 'a) \<times> hook_state" where
  "invoke valid r st =
     (case run_calls valid (calls r) st of
        (Inl e, st') \<Rightarrow> (Inl e, st')
      | (Inr u, st') \<Rightarrow>
          (case outcome r of
             Throws m \<Rightarrow> (Inl (HookThrew m), st')
           | Returns x \<Rightarrow> (Inr x, st')))"

subsection \<open>executeTrigger\<close>

text \<open>\<^verbatim>\<open>typeof\<close> and \<^verbatim>\<open>Array.isArray\<close> on the value a run routine returns.\<close>

fun typeof :: "js_value \<Rightarrow> string" where
  "typeof JUndefined = ''undefined''"
| "typeof JNull = ''object''"
| "typeof (JBoolean b) = ''boolean''"
| "typeof (JNumber n) = ''number''"
| "typeof (JBigInt n) = ''bigint''"
| "typeof (JString s) = ''string''"
| "typeof (JSymbol s) = ''symbol''"
| "typeof (JFunction f) = ''function''"
| "typeof (JArray xs) = ''object''"
| "typeof (JObject kvs) = ''object''"

fun isArray :: "js_value \<Rightarrow> bool" where
  "isArray (JArray xs) = True"
| "isArray v = False"

fun elements :: "js_value \<Rightarrow> js_value list" where
  "elements (JArray xs) = xs"
| "elements v = []"

text \<open>
  The \<^verbatim>\<open>RUN\<close> case: \<open>run_items\<close> is the part from \<^verbatim>\<open>trigger.run\<close> on, \<open>run_hook\<close>
  the whole case with the verification of an app webhook before it.
  \<^verbatim>\<open>piece.events?.verify(...)\<close> is \<^verbatim>\<open>undefined\<close> for a piece without \<^verbatim>\<open>events\<close>, and
  \<^verbatim>\<open>undefined === false\<close> is false.
\<close>

definition run_items :: "engine_env \<Rightarrow> Trigger \<Rightarrow> hook_state \<Rightarrow> routine_name list \<Rightarrow> engine_result" where
  "run_items env trigger st tr =
     (case invoke (isValidCron env) (run trigger) st of
        (Inl e, st') \<Rightarrow> (Inl e, tr @ [Run])
      | (Inr items, st') \<Rightarrow>
          (if \<not> isArray items
           then (Inl (RunNotArray (typeof items)), tr @ [Run])
           else (Inr (RunResponse True None (elements items)), tr @ [Run])))"

definition run_hook ::
  "engine_env \<Rightarrow> ExecuteTriggerOperation \<Rightarrow> Piece \<Rightarrow> Trigger \<Rightarrow> hook_state \<Rightarrow> engine_result" where
  "run_hook env params piece trigger st =
     (if trigger_type trigger = APP_WEBHOOK
      then (if \<not> truthy (appWebhookUrl params)
            then (Inl (AppWebhookUrlMissing (pieceName params)), [])
            else if \<not> truthy (webhookSecret params)
            then (Inl (WebhookSecretMissing (pieceName params)), [])
            else (case piece_events piece of
                    None \<Rightarrow> run_items env trigger st []
                  | Some verify \<Rightarrow>
                      (case verify \<lparr>v_appWebhookUrl = the (appWebhookUrl params),
                                    v_payload = triggerPayload params,
                                    v_webhookSecret = the (webhookSecret params)\<rparr> of
                         Throws m \<Rightarrow>
                           (Inr (RunResponse False (Some ''Error while verifying webhook'') []),
                            [Verify])
                       | Returns verified \<Rightarrow>
                           (if verified = False
                            then (Inr (RunResponse False (Some ''Webhook is not verified'') []),
                                  [Verify])
                            else run_items env trigger st [Verify]))))
      else run_items env trigger st [])"

definition dispatch ::
  "engine_env \<Rightarrow> ExecuteTriggerOperation \<Rightarrow> Piece \<Rightarrow> Trigger \<Rightarrow> engine_result" where
  "dispatch env params piece trigger =
     (let st = \<lparr>appListeners = [], scheduleOptions = None\<rparr>
      in case hookType params of
           ON_DISABLE \<Rightarrow>
             (case invoke (isValidCron env) (onDisable trigger) st of
                (Inl e, st') \<Rightarrow> (Inl e, [OnDisable])
              | (Inr u, st') \<Rightarrow> (Inr DisableResponse, [OnDisable]))
         | ON_ENABLE \<Rightarrow>
             (case invoke (isValidCron env) (onEnable trigger) st of
                (Inl e, st') \<Rightarrow> (Inl e, [OnEnable])
              | (Inr u, st') \<Rightarrow>
                  (Inr (EnableResponse (appListeners st')
                          (if trigger_type trigger = POLLING then scheduleOptions st' else None)),
                   [OnEnable]))
         | RENEW \<Rightarrow>
             (if trigger_type trigger \<noteq> WEBHOOK
              then (Inl TriggerTypeNotWebhook, [])
              else (case invoke (isValidCron env) (onRenew trigger) st of
                      (Inl e, st') \<Rightarrow> (Inl e, [OnRenew])
                    | (Inr u, st') \<Rightarrow> (Inr (RenewResponse True), [OnRenew])))
         | HANDSHAKE \<Rightarrow>
             (case invoke (isValidCron env) (onHandshake trigger) st of
                (Inl e, st') \<Rightarrow>
                  (Inr (HandshakeResponse False None (Some (stringify env e))), [OnHandshake])
              | (Inr response, st') \<Rightarrow>
                  (Inr (HandshakeResponse True (Some response) None), [OnHandshake]))
         | TEST \<Rightarrow>
             (case invoke (isValidCron env) (test trigger) st of
                (Inl e, st') \<Rightarrow>
                  (Inr (TestResponse False (Some (stringify env e)) (JArray [])), [Test])
              | (Inr out, st') \<Rightarrow> (Inr (TestResponse True None out), [Test]))
         | RUN \<Rightarrow> run_hook env params piece trigger st)"

definition executeTrigger :: "engine_env \<Rightarrow> ExecuteTriggerOperation \<Rightarrow> engine_result" where
  "executeTrigger env params =
     (case triggerName params of
        None \<Rightarrow> (Inl TriggerNameRequired, [])
      | Some tn \<Rightarrow>
          (case loadPiece env (pieceName params) (pieceVersion params) of
             None \<Rightarrow> (Inl (PieceNotFound (pieceName params) (pieceVersion params)), [])
           | Some piece \<Rightarrow>
               (case getTrigger piece tn of
                  None \<Rightarrow> (Inl (TriggerNotFound (pieceName params) tn), [])
                | Some trigger \<Rightarrow>
                    (if validationErrors env params trigger \<noteq> []
                     then (Inl (PropsInvalid (validationErrors env params trigger)), [])
                     else dispatch env params piece trigger))))"


section \<open>Example configuration\<close>

text \<open>
  A small configuration on which the theorems below are instantiated: one project,
  one flow with one version, and one run.
\<close>

definition example_env :: api_env where
  "example_env =
     \<lparr>getServerId = ''server-1'',
      flowVersion_getOne =
        (\<lambda>i. if i = ''fv1''
             then Some \<lparr>fv_id = ''fv1'', fv_flowId = ''f1'', fv_displayName = ''Flow''\<rparr>
             else None),
      flow_getOne =
        (\<lambda>i p. if i = ''f1'' \<and> p = ''p1'' then Some \<lparr>flow_projectId = ''p1''\<rparr> else None),
      getJobPriority = (\<lambda>p h. 0),
      serializeLogs = (\<lambda>es. concat (map (\<lambda>kv. map of_char (fst kv)) (es_steps es))),
      parseLogs = (\<lambda>b. Some []),
      MAX_LOG_SIZE = 4\<rparr>"

definition example_run :: FlowRun where
  "example_run =
     \<lparr>projectId = ''p1'', flowId = ''f1'', flowVersionId = ''fv1'',
      environment = PRODUCTION, flowDisplayName = ''Flow'', startTime = ''t0'',
      finishTime = None, status = Some RUNNING, tasks = None, duration = None,
      logsFileId = None, pauseMetadata = None, tags = None\<rparr>"

definition example_pause :: PauseMetadata where
  "example_pause = WebhookPause ''abc'' (Some ''handler-7'')"

definition example_state :: api_state where
  "example_state =
     \<lparr>runs = [''r1'' \<mapsto> example_run], files = Map.empty, queue = [],
      telemetry = [], handledExceptions = [], sideEffects = []\<rparr>"

definition example_paused_state :: api_state where
  "example_paused_state =
     snd (pause \<lparr>pp_flowRunId = ''r1'', pp_pauseMetadata = example_pause\<rparr> example_state)"

definition example_resume :: "string option \<Rightarrow> AddToQueueParams" where
  "example_resume requestId =
     \<lparr>aq_flowRunId = ''r1'', aq_requestId = requestId, aq_progressUpdateType = NONE,
      aq_payload = JUndefined, aq_executionType = RESUME\<rparr>"

definition example_finish :: "steps \<Rightarrow> FinishParams" where
  "example_finish st =
     \<lparr>fp_flowRunId = ''r1'', fp_projectId = ''p1'', fp_status = SUCCEEDED, fp_tasks = 1,
      fp_duration = None, fp_executionState = Some \<lparr>es_steps = st\<rparr>, fp_tags = []\<rparr>"

definition example_logged_state :: api_state where
  "example_logged_state =
     snd (updateStatus example_env ''t1'' ''file-1'' (example_finish [(''a'', JNull)]) example_state)"

definition example_history :: "api_call list" where
  "example_history =
     [CallPause \<lparr>pp_flowRunId = ''r1'', pp_pauseMetadata = example_pause\<rparr>,
      CallAddToQueue ''t2'' ''n2'' (example_resume (Some ''abc''))]"

text \<open>
  For the trigger hook engine: one piece with one trigger, whose strategy, enable
  routine and run routine vary, and a cron validator that accepts the one
  expression used below.
\<close>

definition example_isValidCron :: "string \<Rightarrow> bool" where
  "example_isValidCron c = (c = ''0 * * * *'')"

definition example_trigger :: "TriggerStrategy \<Rightarrow> hook_call list \<Rightarrow> js_value outcome \<Rightarrow> Trigger" where
  "example_trigger ty enableCalls runOutcome =
     \<lparr>trigger_type = ty,
      onEnable = \<lparr>calls = enableCalls, outcome = Returns ()\<rparr>,
      onDisable = \<lparr>calls = [], outcome = Returns ()\<rparr>,
      onRenew = \<lparr>calls = [], outcome = Returns ()\<rparr>,
      onHandshake = \<lparr>calls = [], outcome = Returns JNull\<rparr>,
      test = \<lparr>calls = [], outcome = Returns (JArray [])\<rparr>,
      run = \<lparr>calls = [], outcome = runOutcome\<rparr>\<rparr>"

definition example_piece :: "Trigger \<Rightarrow> (verify_ctx \<Rightarrow> bool outcome) option \<Rightarrow> Piece" where
  "example_piece trigger ev =
     \<lparr>getTrigger = (\<lambda>t. if t = ''new_event'' then Some trigger else None),
      piece_events = ev\<rparr>"

definition example_engine :: "Piece \<Rightarrow> engine_env" where
  "example_engine piece =
     \<lparr>loadPiece = (\<lambda>n v. if n = ''piece-a'' then Some piece else None),
      validationErrors = (\<lambda>p t. []),
      isValidCron = example_isValidCron,
      stringify = (\<lambda>e. ''{}'')\<rparr>"

definition example_operation :: "TriggerHookType \<Rightarrow> ExecuteTriggerOperation" where
  "example_operation h =
     \<lparr>hookType = h, pieceName = ''piece-a'', pieceVersion = ''0.1.0'',
      triggerName = Some ''new_event'', triggerPayload = Some (JObject []),
      appWebhookUrl = Some ''https://hooks.example/app'', webhookSecret = Some ''s3cret''\<rparr>"

definition example_schedule :: "string \<Rightarrow> ScheduleOptions" where
  "example_schedule c = \<lparr>cronExpression = c, timezone = None, failureCount = None\<rparr>"

section \<open>Properties of the flow run service\<close>

subsection \<open>Auxiliary facts\<close>

lemma start_existing:
  assumes "runs s rid = Some r" and "rid \<noteq> []"
    and "sp_flowRunId p = Some rid"
    and "flowVersion_getOne env (sp_flowVersionId p) = Some fv"
    and "flow_getOne env (fv_flowId fv) (sp_projectId p) = Some fl"
    and "flow_projectId fl = projectId r"
  shows "start env now newId p s =
           (Inr (rid, r\<lparr>status := Some RUNNING\<rparr>),
            s\<lparr>runs := (runs s)(rid \<mapsto> r\<lparr>status := Some RUNNING\<rparr>),
              telemetry := telemetry s @
                 [\<lparr>te_project = flow_projectId fl, te_projectId = projectId r,
                   te_flowId = flowId r, te_environment = environment r\<rparr>],
              queue := queue s @
                 [\<lparr>job_flowRunId = rid,
                   job_flowRun = r\<lparr>status := Some RUNNING\<rparr>,
                   job_httpRequestId = sp_httpRequestId p,
                   job_payload = sp_payload p,
                   job_priority = getJobPriority env (projectId r) (sp_synchronousHandlerId p),
                   job_synchronousHandlerId = sp_synchronousHandlerId p,
                   job_executionType = sp_executionType p,
                   job_progressUpdateType = sp_progressUpdateType p\<rparr>]\<rparr>)"
  using assms
  by (simp add: start_def getFlowRunOrCreate_def getOneOrThrow_def repo_save_def
      flowRunSideEffects_start_def Let_def)

lemma matchRequestId_iff:
  "matchRequestId pm requestId \<longleftrightarrow>
     pm = None \<or> (\<exists>rid h. pm = Some (WebhookPause rid h) \<and> requestId = Some rid)"
  by (cases "(pm, requestId)" rule: matchRequestId.cases) auto

lemma addToQueue_resumed:
  assumes "runs s (aq_flowRunId p) = Some r" and "aq_flowRunId p \<noteq> []"
    and "matchRequestId (pauseMetadata r) (aq_requestId p)"
    and "flowVersion_getOne env (flowVersionId r) = Some fv"
    and "flow_getOne env (fv_flowId fv) (projectId r) = Some fl"
    and "flow_projectId fl = projectId r"
  shows "addToQueue env now newId p s =
           (Inr (),
            s\<lparr>runs := (runs s)(aq_flowRunId p \<mapsto> r\<lparr>status := Some RUNNING\<rparr>),
              telemetry := telemetry s @
                 [\<lparr>te_project = flow_projectId fl, te_projectId = projectId r,
                   te_flowId = flowId r, te_environment = environment r\<rparr>],
              queue := queue s @
                 [\<lparr>job_flowRunId = aq_flowRunId p,
                   job_flowRun = r\<lparr>status := Some RUNNING\<rparr>,
                   job_httpRequestId = aq_requestId p,
                   job_payload = aq_payload p,
                   job_priority = getJobPriority env (projectId r)
                      (Some (returnHandlerId env (pauseMetadata r) (aq_requestId p))),
                   job_synchronousHandlerId =
                      Some (returnHandlerId env (pauseMetadata r) (aq_requestId p)),
                   job_executionType = aq_executionType p,
                   job_progressUpdateType = aq_progressUpdateType p\<rparr>]\<rparr>)"
proof -
  let ?sp = "\<lparr>sp_projectId = projectId r,
                         sp_flowVersionId = flowVersionId r,
                         sp_flowRunId = Some (aq_flowRunId p),
                         sp_environment = PRODUCTION,
                         sp_payload = aq_payload p,
                         sp_synchronousHandlerId =
                           Some (returnHandlerId env (pauseMetadata r) (aq_requestId p)),
                         sp_httpRequestId = aq_requestId p,
                         sp_progressUpdateType = aq_progressUpdateType p,
                         sp_executionType = aq_executionType p\<rparr>"
  have a: "flowVersion_getOne env (sp_flowVersionId ?sp) = Some fv" using assms(4) by simp
  have b: "flow_getOne env (fv_flowId fv) (sp_projectId ?sp) = Some fl" using assms(5) by simp
  have c: "sp_flowRunId ?sp = Some (aq_flowRunId p)" by simp
  note st = start_existing [OF assms(1) assms(2) c a b assms(6), of now newId]
  show ?thesis
    using assms(1) assms(3) by (simp add: addToQueue_def st)
qed

lemma example_paused_state_runs:
  "runs example_paused_state ''r1'' =
     Some (example_run\<lparr>status := Some PAUSED, pauseMetadata := Some example_pause\<rparr>)"
  by (simp add: example_paused_state_def pause_def repo_update_def example_state_def Let_def)

lemma example_paused_state_queue: "queue example_paused_state = []"
  by (simp add: example_paused_state_def pause_def repo_update_def example_state_def Let_def)

lemma start_keeps_logsFileId:
  assumes "runs s rid = Some r" and "runs s newId = None"
  shows "\<exists>r'. runs (snd (start env now newId p s)) rid = Some r' \<and> logsFileId r' = logsFileId r"
  using assms
  by (auto simp: start_def getFlowRunOrCreate_def getOneOrThrow_def repo_save_def
      flowRunSideEffects_start_def Let_def split: option.splits sum.splits if_splits)

lemma pause_keeps_logsFileId:
  assumes "runs s rid = Some r"
  shows "\<exists>r'. runs (snd (pause p s)) rid = Some r' \<and> logsFileId r' = logsFileId r"
  using assms
  by (auto simp: pause_def repo_update_def Let_def split: option.splits)

lemma addToQueue_keeps_logsFileId:
  assumes "runs s rid = Some r" and "runs s newId = None"
  shows "\<exists>r'. runs (snd (addToQueue env now newId p s)) rid = Some r' \<and> logsFileId r' = logsFileId r"
proof (cases "runs s (aq_flowRunId p)")
  case None
  then show ?thesis using assms by (simp add: addToQueue_def)
next
  case (Some q)
  show ?thesis
  proof (cases "matchRequestId (pauseMetadata q) (aq_requestId p)")
    case False
    with Some show ?thesis using assms by (simp add: addToQueue_def)
  next
    case True
    let ?sp = "\<lparr>sp_projectId = projectId q,
                         sp_flowVersionId = flowVersionId q,
                         sp_flowRunId = Some (aq_flowRunId p),
                         sp_environment = PRODUCTION,
                         sp_payload = aq_payload p,
                         sp_synchronousHandlerId =
                           Some (returnHandlerId env (pauseMetadata q) (aq_requestId p)),
                         sp_httpRequestId = aq_requestId p,
                         sp_progressUpdateType = aq_progressUpdateType p,
                         sp_executionType = aq_executionType p\<rparr>"
    have "snd (addToQueue env now newId p s) = snd (start env now newId ?sp s)"
      using Some True by (simp add: addToQueue_def split: prod.splits sum.splits)
    then show ?thesis
      using start_keeps_logsFileId [OF assms, of env now ?sp] by simp
  qed
qed

lemma updateLogs_runs: "runs (snd (updateLogs env newId p s)) = runs s"
  by (simp add: updateLogs_def fileService_save_def Let_def split: option.splits)

lemma updateLogs_result:
  assumes "runs s (ul_flowRunId p) = Some r" and "ul_executionState p = Some es"
    and "fst (updateLogs env newId p s) = Inr res"
  shows "res = Some (case logsFileId r of Some f \<Rightarrow> f | None \<Rightarrow> newId)
       \<and> files (snd (updateLogs env newId p s))
           = (files s)((case logsFileId r of Some f \<Rightarrow> f | None \<Rightarrow> newId) \<mapsto>
                \<lparr>file_projectId = ul_projectId p, file_data = serializeLogs env es,
                 file_type = FLOW_RUN_LOG, file_compression = GZIP\<rparr>)"
  using assms
  by (auto simp: updateLogs_def fileService_save_def Let_def split: if_splits)

lemma updateLogs_fileId:
  assumes "runs s (ul_flowRunId p) = Some r"
    and "fst (updateLogs env newId p s) = Inr (Some fid)"
  shows "fid = (case logsFileId r of Some f \<Rightarrow> f | None \<Rightarrow> newId)"
  using assms
  by (auto simp: updateLogs_def fileService_save_def Let_def split: if_splits option.splits)

lemma updateStatus_keeps_logsFileId:
  assumes "runs s rid = Some r"
  shows "\<exists>r'. runs (snd (updateStatus env now newId p s)) rid = Some r'
           \<and> (\<forall>f. logsFileId r = Some f \<longrightarrow> logsFileId r' = Some f)"
proof (cases "updateLogs env newId
             \<lparr>ul_flowRunId = fp_flowRunId p,
              ul_projectId = fp_projectId p,
              ul_executionState = fp_executionState p\<rparr> s")
  case (Pair res s1)
  have r1: "runs s1 = runs s" using updateLogs_runs [of env newId _ s] Pair
    by (metis snd_conv)
  show ?thesis
  proof (cases res)
    case (Inl e)
    with Pair r1 assms show ?thesis by (simp add: updateStatus_def)
  next
    case (Inr logFileId)
    let ?upd = "(\<lambda>r. r\<lparr>status := Some (fp_status p),
                             tasks := Some (fp_tasks p),
                             duration := spreadIfDefined (flooredDuration (fp_duration p)) (duration r),
                             logsFileId := spreadIfDefined logFileId (logsFileId r),
                             tags := Some (fp_tags p),
                             finishTime := Some now\<rparr>)"
    have s2: "runs (snd (updateStatus env now newId p s)) = runs (repo_update (fp_flowRunId p) ?upd s1)"
      using Pair Inr by (simp add: updateStatus_def Let_def split: sum.splits prod.splits)
    show ?thesis
    proof (cases "fp_flowRunId p = rid")
      case False
      then show ?thesis using s2 r1 assms
        by (auto simp: repo_update_def split: option.splits)
    next
      case True
      have "\<forall>f. logsFileId r = Some f \<longrightarrow> spreadIfDefined logFileId (logsFileId r) = Some f"
      proof (cases logFileId)
        case None
        then show ?thesis by simp
      next
        case (Some fid)
        have "fst (updateLogs env newId \<lparr>ul_flowRunId = fp_flowRunId p,
              ul_projectId = fp_projectId p,
              ul_executionState = fp_executionState p\<rparr> s) = Inr (Some fid)"
          using Pair Inr Some by simp
        from updateLogs_fileId [OF _ this, of r] True assms
        have "fid = (case logsFileId r of Some f \<Rightarrow> f | None \<Rightarrow> newId)" by simp
        with Some show ?thesis by auto
      qed
      then show ?thesis using s2 r1 assms True
        by (auto simp: repo_update_def)
    qed
  qed
qed

lemma perform_keeps_logsFileId:
  assumes "runs s rid = Some r" and "apId_fresh c s"
  shows "\<exists>r'. runs (perform env c s) rid = Some r'
           \<and> (\<forall>f. logsFileId r = Some f \<longrightarrow> logsFileId r' = Some f)"
proof (cases c)
  case (CallStart now newId p)
  with assms start_keeps_logsFileId [of s rid r newId env now p] show ?thesis by auto
next
  case (CallPause p)
  with assms pause_keeps_logsFileId [of s rid r p] show ?thesis by auto
next
  case (CallAddToQueue now newId p)
  with assms addToQueue_keeps_logsFileId [of s rid r newId env now p] show ?thesis by auto
next
  case (CallUpdateStatus now newId p)
  with assms updateStatus_keeps_logsFileId [of s rid r env now newId p] show ?thesis by auto
qed

lemma perform_all_keeps_logsFileId:
  assumes "runs s rid = Some r" and "all_fresh env cs s"
  shows "\<exists>r'. runs (perform_all env cs s) rid = Some r'
           \<and> (\<forall>f. logsFileId r = Some f \<longrightarrow> logsFileId r' = Some f)"
  using assms
proof (induction cs arbitrary: s r)
  case Nil
  then show ?case by simp
next
  case (Cons c cs)
  from Cons.prems have fr: "apId_fresh c s" and rest: "all_fresh env cs (perform env c s)"
    by simp_all
  from perform_keeps_logsFileId [OF Cons.prems(1) fr, of env]
  obtain r1 where r1: "runs (perform env c s) rid = Some r1"
    and k1: "\<forall>f. logsFileId r = Some f \<longrightarrow> logsFileId r1 = Some f" by blast
  from Cons.IH [OF r1 rest]
  obtain r2 where r2: "runs (perform_all env cs (perform env c s)) rid = Some r2"
    and k2: "\<forall>f. logsFileId r1 = Some f \<longrightarrow> logsFileId r2 = Some f" by blast
  from r2 k1 k2 show ?case by auto
qed

lemma updateStatus_success:
  assumes "runs s (fp_flowRunId p) = Some r" and "fp_executionState p = Some es"
    and "fst (updateStatus env now newId p s) = Inr out"
  shows "files (snd (updateStatus env now newId p s))
           = (files s)((case logsFileId r of Some f \<Rightarrow> f | None \<Rightarrow> newId) \<mapsto>
                \<lparr>file_projectId = fp_projectId p, file_data = serializeLogs env es,
                 file_type = FLOW_RUN_LOG, file_compression = GZIP\<rparr>)
       \<and> map_option logsFileId (runs (snd (updateStatus env now newId p s)) (fp_flowRunId p))
           = Some (Some (case logsFileId r of Some f \<Rightarrow> f | None \<Rightarrow> newId))"
proof -
  let ?ul = "\<lparr>ul_flowRunId = fp_flowRunId p,
              ul_projectId = fp_projectId p,
              ul_executionState = fp_executionState p\<rparr>"
  obtain res s1 where ul: "updateLogs env newId ?ul s = (res, s1)" by (cases "updateLogs env newId ?ul s")
  from assms(3) ul obtain logFileId where res: "res = Inr logFileId"
    by (cases res) (auto simp: updateStatus_def)
  have a: "runs s (ul_flowRunId ?ul) = Some r" using assms(1) by simp
  have b: "ul_executionState ?ul = Some es" using assms(2) by simp
  have c: "fst (updateLogs env newId ?ul s) = Inr logFileId" using ul res by simp
  from updateLogs_result [OF a b c] ul
  have lf: "logFileId = Some (case logsFileId r of Some f \<Rightarrow> f | None \<Rightarrow> newId)"
    and fs: "files s1 = (files s)((case logsFileId r of Some f \<Rightarrow> f | None \<Rightarrow> newId) \<mapsto>
                \<lparr>file_projectId = fp_projectId p, file_data = serializeLogs env es,
                 file_type = FLOW_RUN_LOG, file_compression = GZIP\<rparr>)"
    by simp_all
  have r1: "runs s1 = runs s" using updateLogs_runs [of env newId ?ul s] ul by simp
  let ?upd = "(\<lambda>r. r\<lparr>status := Some (fp_status p),
                             tasks := Some (fp_tasks p),
                             duration := spreadIfDefined (flooredDuration (fp_duration p)) (duration r),
                             logsFileId := spreadIfDefined logFileId (logsFileId r),
                             tags := Some (fp_tags p),
                             finishTime := Some now\<rparr>)"
  have s2r: "runs (snd (updateStatus env now newId p s)) = runs (repo_update (fp_flowRunId p) ?upd s1)"
    using ul res by (simp add: updateStatus_def Let_def split: sum.splits prod.splits)
  have s2f: "files (snd (updateStatus env now newId p s)) = files (repo_update (fp_flowRunId p) ?upd s1)"
    using ul res by (simp add: updateStatus_def Let_def split: sum.splits prod.splits)
  have f2: "files (repo_update (fp_flowRunId p) ?upd s1) = files s1"
    by (simp add: repo_update_def split: option.splits)
  show ?thesis
    using s2r s2f f2 fs r1 assms(1) lf by (simp add: repo_update_def)
qed

lemma updateStatus_succeeds:
  assumes "runs s (fp_flowRunId p) = Some r" and "fp_executionState p = Some es"
    and "length (serializeLogs env es) \<le> MAX_LOG_SIZE env"
    and "parseLogs env (serializeLogs env es) = Some st"
  shows "\<exists>out. fst (updateStatus env now newId p s) = Inr out"
  using assms
  by (simp add: updateStatus_def updateLogs_def fileService_save_def repo_update_def
      getOnePopulatedOrThrow_def getOneOrThrow_def fileService_getOneOrThrow_def Let_def)

lemma pause_files: "files (snd (pause p s)) = files s"
  by (simp add: pause_def repo_update_def Let_def split: option.splits)

lemma start_files: "files (snd (start env now newId p s)) = files s"
  by (simp add: start_def repo_save_def flowRunSideEffects_start_def Let_def
      split: option.splits sum.splits prod.splits)

lemma addToQueue_files: "files (snd (addToQueue env now newId p s)) = files s"
proof (cases "runs s (aq_flowRunId p)")
  case None
  then show ?thesis by (simp add: addToQueue_def)
next
  case (Some q)
  show ?thesis
  proof (cases "matchRequestId (pauseMetadata q) (aq_requestId p)")
    case False
    with Some show ?thesis by (simp add: addToQueue_def)
  next
    case True
    let ?sp = "\<lparr>sp_projectId = projectId q,
                 sp_flowVersionId = flowVersionId q,
                 sp_flowRunId = Some (aq_flowRunId p),
                 sp_environment = PRODUCTION,
                 sp_payload = aq_payload p,
                 sp_synchronousHandlerId =
                   Some (returnHandlerId env (pauseMetadata q) (aq_requestId p)),
                 sp_httpRequestId = aq_requestId p,
                 sp_progressUpdateType = aq_progressUpdateType p,
                 sp_executionType = aq_executionType p\<rparr>"
    have "snd (addToQueue env now newId p s) = snd (start env now newId ?sp s)"
      using Some True by (simp add: addToQueue_def split: prod.splits sum.splits)
    then show ?thesis by (simp add: start_files)
  qed
qed

lemma pause_runs_other:
  "runs s i = None \<Longrightarrow> pp_flowRunId p \<noteq> i \<Longrightarrow> runs (snd (pause p s)) i = None"
  by (simp add: pause_def repo_update_def Let_def split: option.splits)

lemma example_logged_state_eq:
  "example_logged_state =
     \<lparr>runs = [''r1'' \<mapsto> example_run\<lparr>finishTime := Some ''t1'', status := Some SUCCEEDED,
                 tasks := Some 1, logsFileId := Some ''file-1'', tags := Some []\<rparr>],
      files = [''file-1'' \<mapsto> \<lparr>file_projectId = ''p1'', file_data = [of_char CHR ''a''],
                 file_type = FLOW_RUN_LOG, file_compression = GZIP\<rparr>],
      queue = [], telemetry = [], handledExceptions = [],
      sideEffects = [FinishEffect ''r1''
         (example_run\<lparr>finishTime := Some ''t1'', status := Some SUCCEEDED,
                 tasks := Some 1, logsFileId := Some ''file-1'', tags := Some []\<rparr>) []]\<rparr>"
  by (simp add: example_logged_state_def example_finish_def example_state_def example_env_def
      example_run_def updateStatus_def updateLogs_def fileService_save_def repo_update_def
      getOnePopulatedOrThrow_def getOneOrThrow_def fileService_getOneOrThrow_def Let_def)


subsection \<open>Resuming a run\<close>

text \<open>
  Claim C1. For a call to \<^verbatim>\<open>addToQueue\<close> on an existing run: when the stored pause
  metadata is absent, or is a WEBHOOK pause whose request id is the one supplied,
  the run goes to \<^verbatim>\<open>start\<close> (the call leaves the state that \<^verbatim>\<open>start\<close> leaves, and
  fails exactly when \<^verbatim>\<open>start\<close> fails), and (the flow version and the flow being
  found by \<^verbatim>\<open>start\<close>'s lookups) the call succeeds, the run's status is RUNNING and
  exactly one job, for this run, is appended to the queue. In every other case (a WEBHOOK
  pause with another request id, or a DELAY pause) the call returns with the whole
  state as it was: a PAUSED run stays PAUSED and nothing is enqueued.
\<close>

theorem addToQueue_resumes_only_on_match:
  assumes "runs s (aq_flowRunId p) = Some r" and "aq_flowRunId p \<noteq> []"
  shows "((pauseMetadata r = None
            \<or> (\<exists>rid h. pauseMetadata r = Some (WebhookPause rid h) \<and> aq_requestId p = Some rid))
          \<longrightarrow> (snd (addToQueue env now newId p s)
                 = snd (start env now newId
                      \<lparr>sp_projectId = projectId r,
                         sp_flowVersionId = flowVersionId r,
                         sp_flowRunId = Some (aq_flowRunId p),
                         sp_environment = PRODUCTION,
                         sp_payload = aq_payload p,
                         sp_synchronousHandlerId =
                           Some (returnHandlerId env (pauseMetadata r) (aq_requestId p)),
                         sp_httpRequestId = aq_requestId p,
                         sp_progressUpdateType = aq_progressUpdateType p,
                         sp_executionType = aq_executionType p\<rparr> s)
               \<and> isl (fst (addToQueue env now newId p s))
                 = isl (fst (start env now newId
                      \<lparr>sp_projectId = projectId r,
                         sp_flowVersionId = flowVersionId r,
                         sp_flowRunId = Some (aq_flowRunId p),
                         sp_environment = PRODUCTION,
                         sp_payload = aq_payload p,
                         sp_synchronousHandlerId =
                           Some (returnHandlerId env (pauseMetadata r) (aq_requestId p)),
                         sp_httpRequestId = aq_requestId p,
                         sp_progressUpdateType = aq_progressUpdateType p,
                         sp_executionType = aq_executionType p\<rparr> s)))
            \<and> (\<forall>fv fl. flowVersion_getOne env (flowVersionId r) = Some fv
                  \<and> flow_getOne env (fv_flowId fv) (projectId r) = Some fl
                  \<and> flow_projectId fl = projectId r
                \<longrightarrow> fst (addToQueue env now newId p s) = Inr ()
                  \<and> map_option status (runs (snd (addToQueue env now newId p s)) (aq_flowRunId p))
                      = Some (Some RUNNING)
                  \<and> (\<exists>job. queue (snd (addToQueue env now newId p s)) = queue s @ [job]
                        \<and> job_flowRunId job = aq_flowRunId p
                        \<and> job_executionType job = aq_executionType p)))
       \<and> (\<not> (pauseMetadata r = None
            \<or> (\<exists>rid h. pauseMetadata r = Some (WebhookPause rid h) \<and> aq_requestId p = Some rid))
          \<longrightarrow> addToQueue env now newId p s = (Inr (), s)
            \<and> (status r = Some PAUSED \<longrightarrow>
                 map_option status (runs (snd (addToQueue env now newId p s)) (aq_flowRunId p))
                   = Some (Some PAUSED))
            \<and> queue (snd (addToQueue env now newId p s)) = queue s)"
proof (intro conjI impI allI)
  assume m: "pauseMetadata r = None
            \<or> (\<exists>rid h. pauseMetadata r = Some (WebhookPause rid h) \<and> aq_requestId p = Some rid)"
  then have mr: "matchRequestId (pauseMetadata r) (aq_requestId p)"
    by (simp add: matchRequestId_iff)
  let ?sp = "\<lparr>sp_projectId = projectId r,
                         sp_flowVersionId = flowVersionId r,
                         sp_flowRunId = Some (aq_flowRunId p),
                         sp_environment = PRODUCTION,
                         sp_payload = aq_payload p,
                         sp_synchronousHandlerId =
                           Some (returnHandlerId env (pauseMetadata r) (aq_requestId p)),
                         sp_httpRequestId = aq_requestId p,
                         sp_progressUpdateType = aq_progressUpdateType p,
                         sp_executionType = aq_executionType p\<rparr>"
  show "snd (addToQueue env now newId p s) = snd (start env now newId ?sp s)"
    using assms(1) mr by (simp add: addToQueue_def split: prod.splits sum.splits)
  show "isl (fst (addToQueue env now newId p s)) = isl (fst (start env now newId ?sp s))"
    using assms(1) mr by (simp add: addToQueue_def split: prod.splits sum.splits)
next
  fix fv fl
  assume m: "pauseMetadata r = None
            \<or> (\<exists>rid h. pauseMetadata r = Some (WebhookPause rid h) \<and> aq_requestId p = Some rid)"
    and l: "flowVersion_getOne env (flowVersionId r) = Some fv
                  \<and> flow_getOne env (fv_flowId fv) (projectId r) = Some fl
                  \<and> flow_projectId fl = projectId r"
  from m have mr: "matchRequestId (pauseMetadata r) (aq_requestId p)"
    by (simp add: matchRequestId_iff)
  let ?sp = "\<lparr>sp_projectId = projectId r,
                         sp_flowVersionId = flowVersionId r,
                         sp_flowRunId = Some (aq_flowRunId p),
                         sp_environment = PRODUCTION,
                         sp_payload = aq_payload p,
                         sp_synchronousHandlerId =
                           Some (returnHandlerId env (pauseMetadata r) (aq_requestId p)),
                         sp_httpRequestId = aq_requestId p,
                         sp_progressUpdateType = aq_progressUpdateType p,
                         sp_executionType = aq_executionType p\<rparr>"
  have st: "start env now newId ?sp s = 
           (Inr (aq_flowRunId p, r\<lparr>status := Some RUNNING\<rparr>),
            s\<lparr>runs := (runs s)(aq_flowRunId p \<mapsto> r\<lparr>status := Some RUNNING\<rparr>),
              telemetry := telemetry s @
                 [\<lparr>te_project = flow_projectId fl, te_projectId = projectId r,
                   te_flowId = flowId r, te_environment = environment r\<rparr>],
              queue := queue s @
                 [\<lparr>job_flowRunId = aq_flowRunId p,
                   job_flowRun = r\<lparr>status := Some RUNNING\<rparr>,
                   job_httpRequestId = sp_httpRequestId ?sp,
                   job_payload = sp_payload ?sp,
                   job_priority = getJobPriority env (projectId r) (sp_synchronousHandlerId ?sp),
                   job_synchronousHandlerId = sp_synchronousHandlerId ?sp,
                   job_executionType = sp_executionType ?sp,
                   job_progressUpdateType = sp_progressUpdateType ?sp\<rparr>]\<rparr>)"
  proof (rule start_existing)
    show "runs s (aq_flowRunId p) = Some r" by (rule assms(1))
    show "aq_flowRunId p \<noteq> []" by (rule assms(2))
    show "sp_flowRunId ?sp = Some (aq_flowRunId p)" by simp
    show "flowVersion_getOne env (sp_flowVersionId ?sp) = Some fv" using l by simp
    show "flow_getOne env (fv_flowId fv) (sp_projectId ?sp) = Some fl" using l by simp
    show "flow_projectId fl = projectId r" using l by blast
  qed
  have a: "addToQueue env now newId p s = (Inr (), snd (start env now newId ?sp s))"
    using assms(1) mr by (simp add: addToQueue_def st)
  show "fst (addToQueue env now newId p s) = Inr ()"
    by (simp add: a)
  show "map_option status (runs (snd (addToQueue env now newId p s)) (aq_flowRunId p))
                      = Some (Some RUNNING)"
    by (simp add: a st)
  show "\<exists>job. queue (snd (addToQueue env now newId p s)) = queue s @ [job]
                        \<and> job_flowRunId job = aq_flowRunId p
                        \<and> job_executionType job = aq_executionType p"
    by (simp add: a st)
next
  assume n: "\<not> (pauseMetadata r = None
            \<or> (\<exists>rid h. pauseMetadata r = Some (WebhookPause rid h) \<and> aq_requestId p = Some rid))"
  then have nm: "\<not> matchRequestId (pauseMetadata r) (aq_requestId p)"
    by (simp add: matchRequestId_iff)
  show noop: "addToQueue env now newId p s = (Inr (), s)"
    using assms(1) nm by (simp add: addToQueue_def)
  show "queue (snd (addToQueue env now newId p s)) = queue s"
    by (simp add: noop)
  assume "status r = Some PAUSED"
  then show "map_option status (runs (snd (addToQueue env now newId p s)) (aq_flowRunId p))
                   = Some (Some PAUSED)"
    using assms(1) by (simp add: noop)
qed

theorem addToQueue_resumes_only_on_match_witness:
  "fst (addToQueue example_env ''t1'' ''n1'' (example_resume (Some ''abc'')) example_paused_state) = Inr ()
   \<and> map_option status
        (runs (snd (addToQueue example_env ''t1'' ''n1'' (example_resume (Some ''abc''))
           example_paused_state)) ''r1'') = Some (Some RUNNING)
   \<and> length (queue (snd (addToQueue example_env ''t1'' ''n1'' (example_resume (Some ''abc''))
           example_paused_state))) = 1
   \<and> addToQueue example_env ''t1'' ''n1'' (example_resume (Some ''xyz'')) example_paused_state
       = (Inr (), example_paused_state)
   \<and> map_option status
        (runs (snd (addToQueue example_env ''t1'' ''n1'' (example_resume (Some ''xyz''))
           example_paused_state)) ''r1'') = Some (Some PAUSED)"
proof -
  let ?r = "example_run\<lparr>status := Some PAUSED, pauseMetadata := Some example_pause\<rparr>"
  have r1: "runs example_paused_state (aq_flowRunId (example_resume (Some ''abc''))) = Some ?r"
    by (simp add: example_resume_def example_paused_state_runs)
  have r2: "runs example_paused_state (aq_flowRunId (example_resume (Some ''xyz''))) = Some ?r"
    by (simp add: example_resume_def example_paused_state_runs)
  have n1: "aq_flowRunId (example_resume (Some ''abc'')) \<noteq> []"
    by (simp add: example_resume_def)
  have n2: "aq_flowRunId (example_resume (Some ''xyz'')) \<noteq> []"
    by (simp add: example_resume_def)
  have m: "pauseMetadata ?r = None
            \<or> (\<exists>rid h. pauseMetadata ?r = Some (WebhookPause rid h)
                  \<and> aq_requestId (example_resume (Some ''abc'')) = Some rid)"
    by (simp add: example_pause_def example_resume_def)
  have nm: "\<not> (pauseMetadata ?r = None
            \<or> (\<exists>rid h. pauseMetadata ?r = Some (WebhookPause rid h)
                  \<and> aq_requestId (example_resume (Some ''xyz'')) = Some rid))"
    by (simp add: example_pause_def example_resume_def)
  have l: "flowVersion_getOne example_env (flowVersionId ?r)
              = Some \<lparr>fv_id = ''fv1'', fv_flowId = ''f1'', fv_displayName = ''Flow''\<rparr>
           \<and> flow_getOne example_env
                (fv_flowId \<lparr>fv_id = ''fv1'', fv_flowId = ''f1'', fv_displayName = ''Flow''\<rparr>)
                (projectId ?r) = Some \<lparr>flow_projectId = ''p1''\<rparr>
           \<and> flow_projectId \<lparr>flow_projectId = ''p1''\<rparr> = projectId ?r"
    by (simp add: example_env_def example_run_def)
  have st: "status ?r = Some PAUSED" by simp
  note a0 = addToQueue_resumes_only_on_match [OF r1 n1, of example_env "''t1''" "''n1''",
      THEN conjunct1, rule_format, OF m]
  note a = a0 [THEN conjunct2, rule_format, OF l]
  note b = addToQueue_resumes_only_on_match [OF r2 n2, of example_env "''t1''" "''n1''",
      THEN conjunct2, rule_format, OF nm]
  from a have a1: "fst (addToQueue example_env ''t1'' ''n1'' (example_resume (Some ''abc''))
      example_paused_state) = Inr ()" by blast
  from a have a2: "map_option status
        (runs (snd (addToQueue example_env ''t1'' ''n1'' (example_resume (Some ''abc''))
           example_paused_state)) ''r1'') = Some (Some RUNNING)"
    by (simp add: example_resume_def)
  from a have a3: "length (queue (snd (addToQueue example_env ''t1'' ''n1''
      (example_resume (Some ''abc'')) example_paused_state))) = 1"
    by (auto simp: example_paused_state_queue)
  from b have b1: "addToQueue example_env ''t1'' ''n1'' (example_resume (Some ''xyz''))
      example_paused_state = (Inr (), example_paused_state)" by blast
  from b st have b2: "map_option status
        (runs (snd (addToQueue example_env ''t1'' ''n1'' (example_resume (Some ''xyz''))
           example_paused_state)) ''r1'') = Some (Some PAUSED)"
    by (simp add: example_resume_def example_paused_state_runs)
  from a1 a2 a3 b1 b2 show ?thesis by blast
qed

text \<open>
  Claim C2 (as amended). When a paused run is resumed (\<^verbatim>\<open>addToQueue\<close> proceeding to
  \<^verbatim>\<open>start\<close>, whose lookups succeed), the persisted record has status RUNNING and
  the job that is enqueued already carries the run with status RUNNING; the
  record's pause metadata is left exactly as it was stored by the pause.
\<close>

theorem resume_sets_RUNNING_keeps_pauseMetadata:
  assumes "runs s (aq_flowRunId p) = Some r" and "aq_flowRunId p \<noteq> []"
    and "matchRequestId (pauseMetadata r) (aq_requestId p)"
    and "flowVersion_getOne env (flowVersionId r) = Some fv"
    and "flow_getOne env (fv_flowId fv) (projectId r) = Some fl"
    and "flow_projectId fl = projectId r"
  shows "fst (addToQueue env now newId p s) = Inr ()
       \<and> runs (snd (addToQueue env now newId p s)) (aq_flowRunId p)
           = Some (r\<lparr>status := Some RUNNING\<rparr>)
       \<and> map_option status (runs (snd (addToQueue env now newId p s)) (aq_flowRunId p))
           = Some (Some RUNNING)
       \<and> map_option pauseMetadata (runs (snd (addToQueue env now newId p s)) (aq_flowRunId p))
           = Some (pauseMetadata r)
       \<and> map (\<lambda>j. (job_flowRunId j, status (job_flowRun j)))
           (queue (snd (addToQueue env now newId p s)))
           = map (\<lambda>j. (job_flowRunId j, status (job_flowRun j))) (queue s)
               @ [(aq_flowRunId p, Some RUNNING)]"
  by (simp add: addToQueue_resumed [OF assms])

theorem resume_sets_RUNNING_keeps_pauseMetadata_witness:
  "fst (addToQueue example_env ''t1'' ''n1'' (example_resume (Some ''abc'')) example_paused_state)
     = Inr ()
   \<and> map_option status
        (runs (snd (addToQueue example_env ''t1'' ''n1'' (example_resume (Some ''abc''))
           example_paused_state)) ''r1'') = Some (Some RUNNING)
   \<and> map_option pauseMetadata
        (runs (snd (addToQueue example_env ''t1'' ''n1'' (example_resume (Some ''abc''))
           example_paused_state)) ''r1'') = Some (Some example_pause)"
proof -
  let ?r = "example_run\<lparr>status := Some PAUSED, pauseMetadata := Some example_pause\<rparr>"
  let ?fv = "\<lparr>fv_id = ''fv1'', fv_flowId = ''f1'', fv_displayName = ''Flow''\<rparr>"
  let ?fl = "\<lparr>flow_projectId = ''p1''\<rparr>"
  have r1: "runs example_paused_state (aq_flowRunId (example_resume (Some ''abc''))) = Some ?r"
    by (simp add: example_resume_def example_paused_state_runs)
  have n1: "aq_flowRunId (example_resume (Some ''abc'')) \<noteq> []"
    by (simp add: example_resume_def)
  have m: "matchRequestId (pauseMetadata ?r) (aq_requestId (example_resume (Some ''abc'')))"
    by (simp add: example_pause_def example_resume_def)
  have l1: "flowVersion_getOne example_env (flowVersionId ?r) = Some ?fv"
    by (simp add: example_env_def example_run_def)
  have l2: "flow_getOne example_env (fv_flowId ?fv) (projectId ?r) = Some ?fl"
    by (simp add: example_env_def example_run_def)
  have l3: "flow_projectId ?fl = projectId ?r"
    by (simp add: example_run_def)
  from resume_sets_RUNNING_keeps_pauseMetadata [OF r1 n1 m l1 l2 l3, of "''t1''" "''n1''"]
  show ?thesis by (simp add: example_resume_def)
qed

text \<open>
  The claim as first stated has the resume clear the pause metadata. Pausing the
  example run on a webhook and resuming it with the matching request id leaves the
  pause metadata in the persisted record.
\<close>

theorem resume_leaves_pauseMetadata_counterexample:
  "fst (addToQueue example_env ''t1'' ''n1'' (example_resume (Some ''abc''))
          (snd (pause \<lparr>pp_flowRunId = ''r1'', pp_pauseMetadata = WebhookPause ''abc'' (Some ''handler-7'')\<rparr>
                  example_state))) = Inr ()
   \<and> map_option pauseMetadata
        (runs (snd (addToQueue example_env ''t1'' ''n1'' (example_resume (Some ''abc''))
                 (snd (pause \<lparr>pp_flowRunId = ''r1'',
                               pp_pauseMetadata = WebhookPause ''abc'' (Some ''handler-7'')\<rparr>
                         example_state)))) ''r1'')
       = Some (Some (WebhookPause ''abc'' (Some ''handler-7'')))"
  by (simp add: addToQueue_def start_def getFlowRunOrCreate_def getOneOrThrow_def repo_save_def
      flowRunSideEffects_start_def pause_def repo_update_def example_state_def example_env_def
      example_run_def example_resume_def Let_def)

subsection \<open>Execution logs\<close>

text \<open>
  Claim C8. An \<^verbatim>\<open>updateStatus\<close> call whose execution-state trace serializes to
  more bytes than \<^verbatim>\<open>MAX_LOG_SIZE\<close> fails, and neither the run table nor the file
  table changes; for an existing run the failure is the size-limit error, the same
  error is handed to the exception handler, and the run's \<^verbatim>\<open>logsFileId\<close> is what it
  was.
\<close>

theorem updateStatus_rejects_oversized_log:
  assumes "fp_executionState p = Some es"
    and "MAX_LOG_SIZE env < length (serializeLogs env es)"
  shows "isl (fst (updateStatus env now newId p s))
       \<and> runs (snd (updateStatus env now newId p s)) = runs s
       \<and> files (snd (updateStatus env now newId p s)) = files s
       \<and> (\<forall>r. runs s (fp_flowRunId p) = Some r \<longrightarrow>
            fst (updateStatus env now newId p s) = Inl (LOG_TOO_LARGE (MAX_LOG_SIZE env))
            \<and> handledExceptions (snd (updateStatus env now newId p s))
                = handledExceptions s @ [LOG_TOO_LARGE (MAX_LOG_SIZE env)]
            \<and> map_option logsFileId (runs (snd (updateStatus env now newId p s)) (fp_flowRunId p))
                = Some (logsFileId r))"
  using assms
  by (auto simp: updateStatus_def updateLogs_def Let_def split: option.splits)


theorem updateStatus_rejects_oversized_log_witness:
  "fst (updateStatus example_env ''t2'' ''file-2'' (example_finish [(''step_1'', JNull)])
          example_logged_state) = Inl (LOG_TOO_LARGE 4)
   \<and> runs (snd (updateStatus example_env ''t2'' ''file-2'' (example_finish [(''step_1'', JNull)])
          example_logged_state)) = runs example_logged_state
   \<and> files (snd (updateStatus example_env ''t2'' ''file-2'' (example_finish [(''step_1'', JNull)])
          example_logged_state)) = files example_logged_state
   \<and> handledExceptions (snd (updateStatus example_env ''t2'' ''file-2''
          (example_finish [(''step_1'', JNull)]) example_logged_state)) = [LOG_TOO_LARGE 4]
   \<and> map_option logsFileId (runs (snd (updateStatus example_env ''t2'' ''file-2''
          (example_finish [(''step_1'', JNull)]) example_logged_state)) ''r1'')
       = Some (Some ''file-1'')"
proof -
  let ?p = "example_finish [(''step_1'', JNull)]"
  have e: "fp_executionState ?p = Some \<lparr>es_steps = [(''step_1'', JNull)]\<rparr>"
    by (simp add: example_finish_def)
  have big: "MAX_LOG_SIZE example_env
               < length (serializeLogs example_env \<lparr>es_steps = [(''step_1'', JNull)]\<rparr>)"
    by (simp add: example_env_def)
  have r: "runs example_logged_state (fp_flowRunId ?p)
             = Some (example_run\<lparr>finishTime := Some ''t1'', status := Some SUCCEEDED,
                 tasks := Some 1, logsFileId := Some ''file-1'', tags := Some []\<rparr>)"
    by (simp add: example_logged_state_eq example_finish_def)
  note t = updateStatus_rejects_oversized_log [OF e big, of "''t2''" "''file-2''" example_logged_state]
  from t have t1: "runs (snd (updateStatus example_env ''t2'' ''file-2'' ?p example_logged_state))
      = runs example_logged_state" by blast
  from t have t2: "files (snd (updateStatus example_env ''t2'' ''file-2'' ?p example_logged_state))
      = files example_logged_state" by blast
  from t r have t3: "fst (updateStatus example_env ''t2'' ''file-2'' ?p example_logged_state)
      = Inl (LOG_TOO_LARGE (MAX_LOG_SIZE example_env))
     \<and> handledExceptions (snd (updateStatus example_env ''t2'' ''file-2'' ?p example_logged_state))
         = handledExceptions example_logged_state @ [LOG_TOO_LARGE (MAX_LOG_SIZE example_env)]
     \<and> map_option logsFileId (runs (snd (updateStatus example_env ''t2'' ''file-2'' ?p
          example_logged_state)) (fp_flowRunId ?p))
         = Some (logsFileId (example_run\<lparr>finishTime := Some ''t1'', status := Some SUCCEEDED,
                 tasks := Some 1, logsFileId := Some ''file-1'', tags := Some []\<rparr>))"
    by blast
  have m: "MAX_LOG_SIZE example_env = 4" by (simp add: example_env_def)
  have h: "handledExceptions example_logged_state = []" by (simp add: example_logged_state_eq)
  have i: "fp_flowRunId ?p = ''r1''" by (simp add: example_finish_def)
  from t1 t2 t3 show ?thesis unfolding m h i by simp
qed


text \<open>
  Claim C9. Take a run and any history of service calls after it. A later
  \<^verbatim>\<open>updateStatus\<close> for the run that succeeds in persisting a trace writes exactly
  one artifact: the one named by the run's current \<^verbatim>\<open>logsFileId\<close> when it has one,
  and the fresh id only when it has none; the run's \<^verbatim>\<open>logsFileId\<close> then names that
  artifact. A \<^verbatim>\<open>logsFileId\<close> that the run had at the beginning of the history is
  still the run's \<^verbatim>\<open>logsFileId\<close> at its end, so the artifact written is that one.
\<close>

theorem logsFileId_reused_by_later_updates:
  assumes "runs s rid = Some r" and "all_fresh env cs s"
    and "fp_flowRunId p = rid" and "fp_executionState p = Some es"
    and "fst (updateStatus env now newId p (perform_all env cs s)) = Inr out"
  shows "\<exists>r'. runs (perform_all env cs s) rid = Some r'
           \<and> (\<forall>f. logsFileId r = Some f \<longrightarrow> logsFileId r' = Some f)
           \<and> files (snd (updateStatus env now newId p (perform_all env cs s)))
               = (files (perform_all env cs s))
                   ((case logsFileId r' of Some f \<Rightarrow> f | None \<Rightarrow> newId) \<mapsto>
                      \<lparr>file_projectId = fp_projectId p, file_data = serializeLogs env es,
                       file_type = FLOW_RUN_LOG, file_compression = GZIP\<rparr>)
           \<and> map_option logsFileId
                (runs (snd (updateStatus env now newId p (perform_all env cs s))) rid)
               = Some (Some (case logsFileId r' of Some f \<Rightarrow> f | None \<Rightarrow> newId))"
proof -
  from perform_all_keeps_logsFileId [OF assms(1) assms(2)]
  obtain r' where r': "runs (perform_all env cs s) rid = Some r'"
    and k: "\<forall>f. logsFileId r = Some f \<longrightarrow> logsFileId r' = Some f" by blast
  have a: "runs (perform_all env cs s) (fp_flowRunId p) = Some r'"
    using r' assms(3) by simp
  from updateStatus_success [OF a assms(4) assms(5)] r' k assms(3)
  show ?thesis by simp
qed

theorem logsFileId_reused_by_later_updates_witness:
  "files (snd (updateStatus example_env ''t3'' ''file-2'' (example_finish [(''b'', JNull)])
          (perform_all example_env example_history example_logged_state)))
     = (files example_logged_state)
         (''file-1'' \<mapsto> \<lparr>file_projectId = ''p1'', file_data = [of_char CHR ''b''],
             file_type = FLOW_RUN_LOG, file_compression = GZIP\<rparr>)
   \<and> map_option logsFileId
        (runs (snd (updateStatus example_env ''t3'' ''file-2'' (example_finish [(''b'', JNull)])
          (perform_all example_env example_history example_logged_state))) ''r1'')
       = Some (Some ''file-1'')"
proof -
  let ?p = "example_finish [(''b'', JNull)]"
  let ?r = "example_run\<lparr>finishTime := Some ''t1'', status := Some SUCCEEDED,
                 tasks := Some 1, logsFileId := Some ''file-1'', tags := Some []\<rparr>"
  let ?s = "perform_all example_env example_history example_logged_state"
  let ?es = "\<lparr>es_steps = [(''b'', JNull)]\<rparr>"
  have r: "runs example_logged_state ''r1'' = Some ?r"
    by (simp add: example_logged_state_eq)
  have n: "runs example_logged_state ''n2'' = None"
    by (simp add: example_logged_state_eq)
  have fr: "all_fresh example_env example_history example_logged_state"
    using pause_runs_other [OF n, of "\<lparr>pp_flowRunId = ''r1'', pp_pauseMetadata = example_pause\<rparr>"]
    by (simp add: example_history_def)
  have i: "fp_flowRunId ?p = ''r1''" by (simp add: example_finish_def)
  have e: "fp_executionState ?p = Some ?es"
    by (simp add: example_finish_def)
  from perform_all_keeps_logsFileId [OF r fr]
  obtain r0 :: FlowRun where r0: "runs ?s ''r1'' = Some r0" by blast
  have r0': "runs ?s (fp_flowRunId ?p) = Some r0" using r0 i by simp
  have small: "length (serializeLogs example_env ?es) \<le> MAX_LOG_SIZE example_env"
    by (simp add: example_env_def)
  have parse: "parseLogs example_env (serializeLogs example_env ?es) = Some []"
    by (simp add: example_env_def)
  from updateStatus_succeeds [OF r0' e small parse, of "''t3''" "''file-2''"]
  obtain out where ok: "fst (updateStatus example_env ''t3'' ''file-2'' ?p ?s) = Inr out"
    by blast
  from logsFileId_reused_by_later_updates [OF r fr i e ok]
  obtain r' :: FlowRun where k: "\<forall>f. logsFileId ?r = Some f \<longrightarrow> logsFileId r' = Some f"
    and f: "files (snd (updateStatus example_env ''t3'' ''file-2'' ?p ?s))
               = (files ?s)
                   ((case logsFileId r' of Some f \<Rightarrow> f | None \<Rightarrow> ''file-2'') \<mapsto>
                      \<lparr>file_projectId = fp_projectId ?p,
                       file_data = serializeLogs example_env ?es,
                       file_type = FLOW_RUN_LOG, file_compression = GZIP\<rparr>)"
    and l: "map_option logsFileId (runs (snd (updateStatus example_env ''t3'' ''file-2'' ?p ?s)) ''r1'')
               = Some (Some (case logsFileId r' of Some f \<Rightarrow> f | None \<Rightarrow> ''file-2''))"
    by blast
  from k have lr: "logsFileId r' = Some ''file-1''" by simp
  have fs: "files ?s = files example_logged_state"
    by (simp add: example_history_def pause_files addToQueue_files)
  have d: "serializeLogs example_env ?es = [of_char CHR ''b'']"
    by (simp add: example_env_def)
  have pj: "fp_projectId ?p = ''p1''" by (simp add: example_finish_def)
  from f l show ?thesis unfolding lr fs d pj by simp
qed


subsection \<open>Handler affinity\<close>

text \<open>
  Claim C3. \<^verbatim>\<open>returnHandlerId\<close> answers with something other than this process's
  own handler id only for a WEBHOOK pause whose recorded request id is the one
  supplied, and then the answer is the handler id stored in the pause. With no
  pause metadata, a DELAY pause, or a request id that differs from the recorded
  one, it answers with the process's own handler id.
\<close>

theorem returnHandlerId_stored_only_on_match:
  "(returnHandlerId env pm requestId \<noteq> getServerId env \<longrightarrow>
      (\<exists>rid h. pm = Some (WebhookPause rid (Some h)) \<and> requestId = Some rid
         \<and> returnHandlerId env pm requestId = h))
   \<and> (pm = None \<longrightarrow> returnHandlerId env pm requestId = getServerId env)
   \<and> (\<forall>t. pm = Some (DelayPause t) \<longrightarrow> returnHandlerId env pm requestId = getServerId env)
   \<and> (\<forall>rid h. pm = Some (WebhookPause rid h) \<and> requestId \<noteq> Some rid \<longrightarrow>
        returnHandlerId env pm requestId = getServerId env)
   \<and> (\<forall>rid h. pm = Some (WebhookPause rid (Some h)) \<and> requestId = Some rid \<and> h \<noteq> [] \<longrightarrow>
        returnHandlerId env pm requestId = h)"
proof -
  have a: "returnHandlerId env pm requestId \<noteq> getServerId env \<longrightarrow>
      (\<exists>rid h. pm = Some (WebhookPause rid (Some h)) \<and> requestId = Some rid
         \<and> returnHandlerId env pm requestId = h)"
  proof (cases pm)
    case None
    then show ?thesis by simp
  next
    case (Some m)
    then show ?thesis
    proof (cases m)
      case (DelayPause t)
      with Some show ?thesis by simp
    next
      case (WebhookPause rid h)
      with Some show ?thesis by (cases h) auto
    qed
  qed
  have b: "pm = None \<longrightarrow> returnHandlerId env pm requestId = getServerId env"
    by simp
  have c: "\<forall>t. pm = Some (DelayPause t) \<longrightarrow> returnHandlerId env pm requestId = getServerId env"
    by simp
  have d: "\<forall>rid h. pm = Some (WebhookPause rid h) \<and> requestId \<noteq> Some rid \<longrightarrow>
        returnHandlerId env pm requestId = getServerId env"
    by simp
  have e: "\<forall>rid h. pm = Some (WebhookPause rid (Some h)) \<and> requestId = Some rid \<and> h \<noteq> [] \<longrightarrow>
        returnHandlerId env pm requestId = h"
    by simp
  from a b c d e show ?thesis by blast
qed


theorem returnHandlerId_stored_only_on_match_witness:
  "returnHandlerId example_env (Some (WebhookPause ''abc'' (Some ''handler-7''))) (Some ''abc'')
     = ''handler-7''
   \<and> returnHandlerId example_env (Some (WebhookPause ''abc'' (Some ''handler-7''))) (Some ''xyz'')
     = getServerId example_env
   \<and> returnHandlerId example_env (Some (DelayPause ''2026-01-01'')) (Some ''abc'')
     = getServerId example_env
   \<and> returnHandlerId example_env None (Some ''abc'') = getServerId example_env"
  using returnHandlerId_stored_only_on_match
          [of example_env "Some (WebhookPause ''abc'' (Some ''handler-7''))" "Some ''abc''"]
        returnHandlerId_stored_only_on_match
          [of example_env "Some (WebhookPause ''abc'' (Some ''handler-7''))" "Some ''xyz''"]
        returnHandlerId_stored_only_on_match
          [of example_env "Some (DelayPause ''2026-01-01'')" "Some ''abc''"]
        returnHandlerId_stored_only_on_match [of example_env None "Some ''abc''"]
  by simp

section \<open>Properties of the trigger hook engine\<close>

subsection \<open>Auxiliary facts\<close>

lemma executeTrigger_found:
  assumes "triggerName params = Some tn"
    and "loadPiece env (pieceName params) (pieceVersion params) = Some piece"
    and "getTrigger piece tn = Some trigger"
    and "validationErrors env params trigger = []"
  shows "executeTrigger env params = dispatch env params piece trigger"
  using assms by (simp add: executeTrigger_def)

lemma example_found:
  "triggerName (example_operation h) = Some ''new_event''"
  "loadPiece (example_engine piece) (pieceName (example_operation h))
      (pieceVersion (example_operation h)) = Some piece"
  "getTrigger (example_piece trigger ev) ''new_event'' = Some trigger"
  "validationErrors (example_engine piece) (example_operation h) trigger = []"
  "hookType (example_operation h) = h"
  by (simp_all add: example_operation_def example_engine_def example_piece_def)

lemma run_calls_SetSchedule:
  "run_calls valid (SetSchedule request # cs) st =
     (if valid (cronExpression request)
      then run_calls valid cs (snd (setSchedule valid request st))
      else (Inl (InvalidCronExpression (cronExpression request)), st))"
  by (simp add: setSchedule_def)

lemma run_calls_TrySetSchedule:
  "run_calls valid (TrySetSchedule request # cs) st =
     run_calls valid cs (snd (setSchedule valid request st))"
  by (cases "setSchedule valid request st") simp

lemma setSchedule_scheduleOptions:
  "(scheduleOptions (snd (setSchedule valid request st)) = None)
     = (scheduleOptions st = None \<and> \<not> valid (cronExpression request))"
  by (simp add: setSchedule_def)

lemma run_calls_ok:
  "(\<forall>r. SetSchedule r \<in> set cs \<longrightarrow> valid (cronExpression r)) \<Longrightarrow>
     fst (run_calls valid cs st) = Inr ()"
proof (induction cs arbitrary: st)
  case Nil
  then show ?case by simp
next
  case (Cons c cs)
  from Cons.prems have rest: "\<forall>r. SetSchedule r \<in> set cs \<longrightarrow> valid (cronExpression r)"
    by simp
  show ?case
  proof (cases c)
    case (CreateListeners l)
    then show ?thesis using Cons.IH [OF rest] by simp
  next
    case (SetSchedule request)
    with Cons.prems have "valid (cronExpression request)" by simp
    with SetSchedule show ?thesis
      using Cons.IH [OF rest] by (simp only: run_calls_SetSchedule if_True)
  next
    case (TrySetSchedule request)
    then show ?thesis
      using Cons.IH [OF rest] by (simp only: run_calls_TrySetSchedule)
  qed
qed

lemma run_calls_schedule:
  "(\<forall>r. SetSchedule r \<in> set cs \<longrightarrow> valid (cronExpression r)) \<Longrightarrow>
     (scheduleOptions (snd (run_calls valid cs st)) \<noteq> None)
       = (scheduleOptions st \<noteq> None
          \<or> (\<exists>r. (SetSchedule r \<in> set cs \<or> TrySetSchedule r \<in> set cs)
                 \<and> valid (cronExpression r)))"
proof (induction cs arbitrary: st)
  case Nil
  then show ?case by simp
next
  case (Cons c cs)
  from Cons.prems have rest: "\<forall>r. SetSchedule r \<in> set cs \<longrightarrow> valid (cronExpression r)"
    by simp
  show ?case
  proof (cases c)
    case (CreateListeners l)
    have "scheduleOptions (createListeners l st) = scheduleOptions st"
      by (simp add: createListeners_def)
    with CreateListeners show ?thesis
      using Cons.IH [OF rest, of "createListeners l st"] by simp
  next
    case (SetSchedule request)
    with Cons.prems have v: "valid (cronExpression request)" by simp
    have "run_calls valid (c # cs) st = run_calls valid cs (snd (setSchedule valid request st))"
      using SetSchedule v by (simp only: run_calls_SetSchedule if_True)
    then have "(scheduleOptions (snd (run_calls valid (c # cs) st)) \<noteq> None)
       = (scheduleOptions (snd (setSchedule valid request st)) \<noteq> None
          \<or> (\<exists>r. (SetSchedule r \<in> set cs \<or> TrySetSchedule r \<in> set cs)
                 \<and> valid (cronExpression r)))"
      using Cons.IH [OF rest, of "snd (setSchedule valid request st)"] by simp
    then show ?thesis
      using SetSchedule v by (auto simp: setSchedule_scheduleOptions)
  next
    case (TrySetSchedule request)
    have "run_calls valid (c # cs) st = run_calls valid cs (snd (setSchedule valid request st))"
      using TrySetSchedule by (simp only: run_calls_TrySetSchedule)
    then have "(scheduleOptions (snd (run_calls valid (c # cs) st)) \<noteq> None)
       = (scheduleOptions (snd (setSchedule valid request st)) \<noteq> None
          \<or> (\<exists>r. (SetSchedule r \<in> set cs \<or> TrySetSchedule r \<in> set cs)
                 \<and> valid (cronExpression r)))"
      using Cons.IH [OF rest, of "snd (setSchedule valid request st)"] by simp
    then show ?thesis
      using TrySetSchedule by (auto simp: setSchedule_scheduleOptions)
  qed
qed

lemma invoke_ok:
  assumes "\<forall>r. SetSchedule r \<in> set (calls rt) \<longrightarrow> valid (cronExpression r)"
    and "outcome rt = Returns x"
  shows "invoke valid rt st = (Inr x, snd (run_calls valid (calls rt) st))"
  using run_calls_ok [OF assms(1), of st] assms(2)
  by (cases "run_calls valid (calls rt) st") (simp add: invoke_def)

lemma run_calls_Inr:
  "fst (run_calls valid cs st) = Inr () \<Longrightarrow>
     (\<forall>r. SetSchedule r \<in> set cs \<longrightarrow> valid (cronExpression r))"
proof (induction cs arbitrary: st)
  case Nil
  then show ?case by simp
next
  case (Cons c cs)
  show ?case
  proof (cases c)
    case (CreateListeners l)
    with Cons.prems have "fst (run_calls valid cs (createListeners l st)) = Inr ()" by simp
    from Cons.IH [OF this] CreateListeners show ?thesis by simp
  next
    case (SetSchedule request)
    show ?thesis
    proof (cases "valid (cronExpression request)")
      case True
      with Cons.prems SetSchedule
      have "fst (run_calls valid cs (snd (setSchedule valid request st))) = Inr ()"
        by (simp only: run_calls_SetSchedule if_True)
      from Cons.IH [OF this] SetSchedule True show ?thesis by auto
    next
      case False
      with Cons.prems SetSchedule have False
        by (simp only: run_calls_SetSchedule if_False fst_conv sum.distinct)
      then show ?thesis ..
    qed
  next
    case (TrySetSchedule request)
    with Cons.prems
    have "fst (run_calls valid cs (snd (setSchedule valid request st))) = Inr ()"
      by (simp only: run_calls_TrySetSchedule)
    from Cons.IH [OF this] TrySetSchedule show ?thesis by simp
  qed
qed

lemma invoke_Inr:
  "fst (invoke valid rt st) = Inr x \<longleftrightarrow>
     (\<forall>r. SetSchedule r \<in> set (calls rt) \<longrightarrow> valid (cronExpression r)) \<and> outcome rt = Returns x"
proof
  assume a: "fst (invoke valid rt st) = Inr x"
  obtain res st' where rc: "run_calls valid (calls rt) st = (res, st')"
    by (cases "run_calls valid (calls rt) st")
  from a rc have "res = Inr ()"
    by (cases res) (auto simp: invoke_def)
  with rc have "fst (run_calls valid (calls rt) st) = Inr ()" by simp
  then have v: "\<forall>r. SetSchedule r \<in> set (calls rt) \<longrightarrow> valid (cronExpression r)"
    by (rule run_calls_Inr)
  from a rc \<open>res = Inr ()\<close> have "outcome rt = Returns x"
    by (cases "outcome rt") (auto simp: invoke_def)
  with v show "(\<forall>r. SetSchedule r \<in> set (calls rt) \<longrightarrow> valid (cronExpression r))
     \<and> outcome rt = Returns x" by simp
next
  assume "(\<forall>r. SetSchedule r \<in> set (calls rt) \<longrightarrow> valid (cronExpression r))
     \<and> outcome rt = Returns x"
  then show "fst (invoke valid rt st) = Inr x"
    by (simp add: invoke_ok)
qed

lemma run_items_result:
  assumes "\<forall>r. SetSchedule r \<in> set (calls (run trigger)) \<longrightarrow> isValidCron env (cronExpression r)"
    and "outcome (run trigger) = Returns items"
  shows "run_items env trigger st tr =
           (if \<not> isArray items then (Inl (RunNotArray (typeof items)), tr @ [Run])
            else (Inr (RunResponse True None (elements items)), tr @ [Run]))"
  using invoke_ok [OF assms, of st] by (simp add: run_items_def)

lemma isArray_iff: "isArray v \<longleftrightarrow> (\<exists>xs. v = JArray xs)"
  by (cases v) simp_all

lemma example_secrets:
  "truthy (appWebhookUrl (example_operation h))" "truthy (webhookSecret (example_operation h))"
  by (simp_all add: example_operation_def)

subsection \<open>Enabling a trigger\<close>

text \<open>
  Claim C4 (as amended). \<^verbatim>\<open>executeTrigger\<close> with hook type \<^verbatim>\<open>ON_ENABLE\<close> returns a
  result exactly when every \<^verbatim>\<open>setSchedule\<close> call that the enable routine does not
  guard has a valid cron expression and the routine returns. The result then has
  a schedule exactly when the trigger's strategy is POLLING and a \<^verbatim>\<open>setSchedule\<close>
  call of the enable routine succeeded, that is, had a valid cron expression; for
  the strategies WEBHOOK and APP_WEBHOOK the schedule is absent whatever the
  routine called.
\<close>

theorem onEnable_schedule_only_for_polling:
  assumes "triggerName params = Some tn"
    and "loadPiece env (pieceName params) (pieceVersion params) = Some piece"
    and "getTrigger piece tn = Some trigger"
    and "validationErrors env params trigger = []"
    and "hookType params = ON_ENABLE"
  shows "((\<not> isl (fst (executeTrigger env params))) \<longleftrightarrow>
            (\<forall>r. SetSchedule r \<in> set (calls (onEnable trigger))
                \<longrightarrow> isValidCron env (cronExpression r))
            \<and> outcome (onEnable trigger) = Returns ())
       \<and> (\<forall>resp. fst (executeTrigger env params) = Inr resp \<longrightarrow>
            (\<exists>ls so. resp = EnableResponse ls so
               \<and> (so \<noteq> None \<longleftrightarrow>
                     trigger_type trigger = POLLING
                       \<and> (\<exists>r. (SetSchedule r \<in> set (calls (onEnable trigger))
                                 \<or> TrySetSchedule r \<in> set (calls (onEnable trigger)))
                              \<and> isValidCron env (cronExpression r)))
               \<and> (trigger_type trigger = WEBHOOK \<or> trigger_type trigger = APP_WEBHOOK
                     \<longrightarrow> so = None)))"
proof -
  let ?st = "\<lparr>appListeners = [], scheduleOptions = None\<rparr>"
  let ?st' = "snd (run_calls (isValidCron env) (calls (onEnable trigger)) ?st)"
  let ?ok = "(\<forall>r. SetSchedule r \<in> set (calls (onEnable trigger))
                \<longrightarrow> isValidCron env (cronExpression r))
            \<and> outcome (onEnable trigger) = Returns ()"
  have d: "executeTrigger env params = dispatch env params piece trigger"
    using assms(1-4) by (rule executeTrigger_found)
  have good: "fst (executeTrigger env params)
             = Inr (EnableResponse (appListeners ?st')
                 (if trigger_type trigger = POLLING then scheduleOptions ?st' else None))"
    if ok: ?ok
  proof -
    have i: "invoke (isValidCron env) (onEnable trigger) ?st = (Inr (), ?st')"
      using ok by (simp add: invoke_ok)
    show ?thesis using assms(5) by (simp add: d dispatch_def i)
  qed
  have bad: "isl (fst (executeTrigger env params))" if nok: "\<not> ?ok"
  proof -
    obtain res st' where iv: "invoke (isValidCron env) (onEnable trigger) ?st = (res, st')"
      by (cases "invoke (isValidCron env) (onEnable trigger) ?st")
    have "res \<noteq> Inr ()"
      using invoke_Inr [of "isValidCron env" "onEnable trigger" ?st "()"] nok iv by auto
    then obtain e where "res = Inl e" by (cases res) auto
    with iv show ?thesis using assms(5) by (simp add: d dispatch_def)
  qed
  have s: "(scheduleOptions ?st' \<noteq> None)
             = (\<exists>r. (SetSchedule r \<in> set (calls (onEnable trigger))
                       \<or> TrySetSchedule r \<in> set (calls (onEnable trigger)))
                    \<and> isValidCron env (cronExpression r))"
    if ok: ?ok
    using run_calls_schedule [of "calls (onEnable trigger)" "isValidCron env" ?st] ok by simp
  have a: "(\<not> isl (fst (executeTrigger env params))) \<longleftrightarrow> ?ok"
  proof
    assume r: "(\<not> isl (fst (executeTrigger env params)))"
    show ?ok
    proof (rule ccontr)
      assume "\<not> ?ok"
      then have "isl (fst (executeTrigger env params))" by (rule bad)
      with r show False by (cases "fst (executeTrigger env params)") auto
    qed
  next
    assume ?ok
    then show "(\<not> isl (fst (executeTrigger env params)))" by (simp add: good)
  qed
  have b: "\<forall>resp. fst (executeTrigger env params) = Inr resp \<longrightarrow>
            (\<exists>ls so. resp = EnableResponse ls so
               \<and> (so \<noteq> None \<longleftrightarrow>
                     trigger_type trigger = POLLING
                       \<and> (\<exists>r. (SetSchedule r \<in> set (calls (onEnable trigger))
                                 \<or> TrySetSchedule r \<in> set (calls (onEnable trigger)))
                              \<and> isValidCron env (cronExpression r)))
               \<and> (trigger_type trigger = WEBHOOK \<or> trigger_type trigger = APP_WEBHOOK
                     \<longrightarrow> so = None))"
  proof (intro allI impI)
    fix resp
    assume r: "fst (executeTrigger env params) = Inr resp"
    then have "(\<not> isl (fst (executeTrigger env params)))" by simp
    with a have ok: ?ok by simp
    from good [OF ok] r
    have resp: "resp = EnableResponse (appListeners ?st')
                 (if trigger_type trigger = POLLING then scheduleOptions ?st' else None)"
      by simp
    show "\<exists>ls so. resp = EnableResponse ls so
               \<and> (so \<noteq> None \<longleftrightarrow>
                     trigger_type trigger = POLLING
                       \<and> (\<exists>r. (SetSchedule r \<in> set (calls (onEnable trigger))
                                 \<or> TrySetSchedule r \<in> set (calls (onEnable trigger)))
                              \<and> isValidCron env (cronExpression r)))
               \<and> (trigger_type trigger = WEBHOOK \<or> trigger_type trigger = APP_WEBHOOK
                     \<longrightarrow> so = None)"
      using resp s [OF ok] by auto
  qed
  from a b show ?thesis by simp
qed

theorem onEnable_schedule_only_for_polling_witness:
  "(\<exists>ls so. fst (executeTrigger
       (example_engine (example_piece
          (example_trigger POLLING
             [TrySetSchedule (example_schedule ''not-a-cron''),
              SetSchedule (example_schedule ''0 * * * *'')] (Returns (JArray [])))
          None))
       (example_operation ON_ENABLE)) = Inr (EnableResponse ls so) \<and> so \<noteq> None)
   \<and> (\<exists>ls. fst (executeTrigger
       (example_engine (example_piece
          (example_trigger WEBHOOK
             [TrySetSchedule (example_schedule ''not-a-cron''),
              SetSchedule (example_schedule ''0 * * * *'')] (Returns (JArray [])))
          None))
       (example_operation ON_ENABLE)) = Inr (EnableResponse ls None))
   \<and> (\<exists>ls. fst (executeTrigger
       (example_engine (example_piece
          (example_trigger POLLING
             [TrySetSchedule (example_schedule ''not-a-cron'')] (Returns (JArray [])))
          None))
       (example_operation ON_ENABLE)) = Inr (EnableResponse ls None))"
proof -
  let ?calls = "[TrySetSchedule (example_schedule ''not-a-cron''),
                 SetSchedule (example_schedule ''0 * * * *'')]"
  let ?tp = "example_trigger POLLING ?calls (Returns (JArray []))"
  let ?tw = "example_trigger WEBHOOK ?calls (Returns (JArray []))"
  let ?tc = "example_trigger POLLING [TrySetSchedule (example_schedule ''not-a-cron'')]
               (Returns (JArray []))"
  let ?ep = "example_engine (example_piece ?tp None)"
  let ?ew = "example_engine (example_piece ?tw None)"
  let ?ec = "example_engine (example_piece ?tc None)"
  let ?op = "example_operation ON_ENABLE"
  note p = onEnable_schedule_only_for_polling
      [of ?op "''new_event''" ?ep "example_piece ?tp None" ?tp,
       OF example_found(1) example_found(2) example_found(3) example_found(4) example_found(5)]
  note w = onEnable_schedule_only_for_polling
      [of ?op "''new_event''" ?ew "example_piece ?tw None" ?tw,
       OF example_found(1) example_found(2) example_found(3) example_found(4) example_found(5)]
  note c = onEnable_schedule_only_for_polling
      [of ?op "''new_event''" ?ec "example_piece ?tc None" ?tc,
       OF example_found(1) example_found(2) example_found(3) example_found(4) example_found(5)]
  have okp: "(\<forall>r. SetSchedule r \<in> set (calls (onEnable ?tp))
                \<longrightarrow> isValidCron ?ep (cronExpression r))
            \<and> outcome (onEnable ?tp) = Returns ()"
    by (simp add: example_trigger_def example_engine_def example_isValidCron_def
        example_schedule_def)
  have okw: "(\<forall>r. SetSchedule r \<in> set (calls (onEnable ?tw))
                \<longrightarrow> isValidCron ?ew (cronExpression r))
            \<and> outcome (onEnable ?tw) = Returns ()"
    by (simp add: example_trigger_def example_engine_def example_isValidCron_def
        example_schedule_def)
  have okc: "(\<forall>r. SetSchedule r \<in> set (calls (onEnable ?tc))
                \<longrightarrow> isValidCron ?ec (cronExpression r))
            \<and> outcome (onEnable ?tc) = Returns ()"
    by (simp add: example_trigger_def)
  have "(SetSchedule (example_schedule ''0 * * * *'') \<in> set (calls (onEnable ?tp))
            \<or> TrySetSchedule (example_schedule ''0 * * * *'') \<in> set (calls (onEnable ?tp)))
          \<and> isValidCron ?ep (cronExpression (example_schedule ''0 * * * *''))"
    by (simp add: example_trigger_def example_engine_def example_isValidCron_def
        example_schedule_def)
  then have "\<exists>r. (SetSchedule r \<in> set (calls (onEnable ?tp))
                \<or> TrySetSchedule r \<in> set (calls (onEnable ?tp)))
             \<and> isValidCron ?ep (cronExpression r)"
    by (rule exI)
  then have cp: "trigger_type ?tp = POLLING
      \<and> (\<exists>r. (SetSchedule r \<in> set (calls (onEnable ?tp))
                \<or> TrySetSchedule r \<in> set (calls (onEnable ?tp)))
             \<and> isValidCron ?ep (cronExpression r))"
    by (simp add: example_trigger_def)
  have cw: "trigger_type ?tw = WEBHOOK \<or> trigger_type ?tw = APP_WEBHOOK"
    by (simp add: example_trigger_def)
  have cc: "\<not> (trigger_type ?tc = POLLING
      \<and> (\<exists>r. (SetSchedule r \<in> set (calls (onEnable ?tc))
                \<or> TrySetSchedule r \<in> set (calls (onEnable ?tc)))
             \<and> isValidCron ?ec (cronExpression r)))"
    by (simp add: example_trigger_def example_engine_def example_isValidCron_def
        example_schedule_def)
  from p okp have "\<not> isl (fst (executeTrigger ?ep ?op))" by blast
  then obtain rp where rp: "fst (executeTrigger ?ep ?op) = Inr rp"
    by (cases "fst (executeTrigger ?ep ?op)") auto
  from p [THEN conjunct2, rule_format, OF rp]
  obtain ls so where e1: "rp = EnableResponse ls so"
    and e2: "(so \<noteq> None) = (trigger_type ?tp = POLLING
      \<and> (\<exists>r. (SetSchedule r \<in> set (calls (onEnable ?tp))
                \<or> TrySetSchedule r \<in> set (calls (onEnable ?tp)))
             \<and> isValidCron ?ep (cronExpression r)))"
    by blast
  from e2 cp have "so \<noteq> None" by (simp only: simp_thms)
  with rp e1 have a1: "\<exists>ls so. fst (executeTrigger ?ep ?op) = Inr (EnableResponse ls so)
      \<and> so \<noteq> None"
    by blast
  from w okw have "\<not> isl (fst (executeTrigger ?ew ?op))" by blast
  then obtain rw where rw: "fst (executeTrigger ?ew ?op) = Inr rw"
    by (cases "fst (executeTrigger ?ew ?op)") auto
  from w [THEN conjunct2, rule_format, OF rw]
  obtain ls' so' where f1: "rw = EnableResponse ls' so'"
    and f2: "trigger_type ?tw = WEBHOOK \<or> trigger_type ?tw = APP_WEBHOOK \<longrightarrow> so' = None"
    by blast
  from f2 cw have "so' = None" by blast
  with rw f1 have a2: "\<exists>ls. fst (executeTrigger ?ew ?op) = Inr (EnableResponse ls None)"
    by blast
  from c okc have "\<not> isl (fst (executeTrigger ?ec ?op))" by blast
  then obtain rc where rc: "fst (executeTrigger ?ec ?op) = Inr rc"
    by (cases "fst (executeTrigger ?ec ?op)") auto
  from c [THEN conjunct2, rule_format, OF rc]
  obtain ls'' so'' where g1: "rc = EnableResponse ls'' so''"
    and g2: "(so'' \<noteq> None) = (trigger_type ?tc = POLLING
      \<and> (\<exists>r. (SetSchedule r \<in> set (calls (onEnable ?tc))
                \<or> TrySetSchedule r \<in> set (calls (onEnable ?tc)))
             \<and> isValidCron ?ec (cronExpression r)))"
    by blast
  from g2 cc have "so'' = None" by (simp only: simp_thms)
  with rc g1 have a3: "\<exists>ls. fst (executeTrigger ?ec ?op) = Inr (EnableResponse ls None)"
    by blast
  from a1 a2 a3 show ?thesis by blast
qed

text \<open>
  The claim as first stated has the schedule present whenever the strategy is
  POLLING and the enable routine called \<^verbatim>\<open>setSchedule\<close>. The enable routine of a
  POLLING trigger that calls \<^verbatim>\<open>setSchedule\<close> with an invalid cron expression, catches
  the exception and returns, gets a result without a schedule.
\<close>

theorem onEnable_caught_setSchedule_counterexample:
  "executeTrigger
     (example_engine (example_piece
        (example_trigger POLLING [TrySetSchedule (example_schedule ''not-a-cron'')]
           (Returns (JArray [])))
        None))
     (example_operation ON_ENABLE)
     = (Inr (EnableResponse [] None), [OnEnable])"
  by (simp add: executeTrigger_def dispatch_def invoke_def setSchedule_def
      example_engine_def example_piece_def example_trigger_def example_operation_def
      example_schedule_def example_isValidCron_def)

text \<open>
  Claim C5. A \<^verbatim>\<open>setSchedule\<close> call whose cron expression is not valid fails with
  the invalid-cron error, leaves the recorded schedule as it was, and ends the
  routine that made it. A call with a valid cron expression succeeds and records
  the expression, with time zone \<^verbatim>\<open>"UTC"\<close> when none is supplied and failure count
  \<^verbatim>\<open>0\<close> when none is supplied (and the supplied ones otherwise).
\<close>

theorem setSchedule_validates_cron:
  "(\<not> valid (cronExpression request) \<longrightarrow>
      setSchedule valid request st = (Inl (InvalidCronExpression (cronExpression request)), st)
      \<and> run_calls valid (SetSchedule request # cs) st
          = (Inl (InvalidCronExpression (cronExpression request)), st))
   \<and> (valid (cronExpression request) \<longrightarrow>
        fst (setSchedule valid request st) = Inr ()
        \<and> map_option cronExpression (scheduleOptions (snd (setSchedule valid request st)))
            = Some (cronExpression request)
        \<and> (timezone request = None \<longrightarrow>
             map_option timezone (scheduleOptions (snd (setSchedule valid request st)))
               = Some (Some ''UTC''))
        \<and> (\<forall>z. timezone request = Some z \<longrightarrow>
             map_option timezone (scheduleOptions (snd (setSchedule valid request st)))
               = Some (Some z))
        \<and> (failureCount request = None \<longrightarrow>
             map_option failureCount (scheduleOptions (snd (setSchedule valid request st)))
               = Some (Some 0))
        \<and> (\<forall>n. failureCount request = Some n \<longrightarrow>
             map_option failureCount (scheduleOptions (snd (setSchedule valid request st)))
               = Some (Some n)))"
  by (simp add: setSchedule_def)

theorem setSchedule_validates_cron_witness:
  "setSchedule example_isValidCron (example_schedule ''not-a-cron'')
      \<lparr>appListeners = [], scheduleOptions = None\<rparr>
     = (Inl (InvalidCronExpression ''not-a-cron''), \<lparr>appListeners = [], scheduleOptions = None\<rparr>)
   \<and> fst (setSchedule example_isValidCron (example_schedule ''0 * * * *'')
            \<lparr>appListeners = [], scheduleOptions = None\<rparr>) = Inr ()
   \<and> map_option timezone (scheduleOptions (snd (setSchedule example_isValidCron
        (example_schedule ''0 * * * *'') \<lparr>appListeners = [], scheduleOptions = None\<rparr>)))
       = Some (Some ''UTC'')
   \<and> map_option failureCount (scheduleOptions (snd (setSchedule example_isValidCron
        (example_schedule ''0 * * * *'') \<lparr>appListeners = [], scheduleOptions = None\<rparr>)))
       = Some (Some 0)"
proof -
  let ?st = "\<lparr>appListeners = [], scheduleOptions = None\<rparr>"
  have bad: "\<not> example_isValidCron (cronExpression (example_schedule ''not-a-cron''))"
    by (simp add: example_isValidCron_def example_schedule_def)
  have good: "example_isValidCron (cronExpression (example_schedule ''0 * * * *''))"
    by (simp add: example_isValidCron_def example_schedule_def)
  have tz: "timezone (example_schedule ''0 * * * *'') = None"
    and fc: "failureCount (example_schedule ''0 * * * *'') = None"
    and c: "cronExpression (example_schedule ''not-a-cron'') = ''not-a-cron''"
    by (simp_all add: example_schedule_def)
  from setSchedule_validates_cron
         [of example_isValidCron "example_schedule ''not-a-cron''" ?st "[]"] bad
  have a: "setSchedule example_isValidCron (example_schedule ''not-a-cron'') ?st
     = (Inl (InvalidCronExpression ''not-a-cron''), ?st)"
    unfolding c by blast
  from setSchedule_validates_cron
         [of example_isValidCron "example_schedule ''0 * * * *''" ?st "[]"] good tz fc
  have b: "fst (setSchedule example_isValidCron (example_schedule ''0 * * * *'') ?st) = Inr ()
    \<and> map_option timezone (scheduleOptions (snd (setSchedule example_isValidCron
        (example_schedule ''0 * * * *'') ?st))) = Some (Some ''UTC'')
    \<and> map_option failureCount (scheduleOptions (snd (setSchedule example_isValidCron
        (example_schedule ''0 * * * *'') ?st))) = Some (Some 0)"
    by blast
  from a b show ?thesis by blast
qed

subsection \<open>Running a trigger\<close>

text \<open>
  Claim C6. For the \<^verbatim>\<open>RUN\<close> hook on an APP_WEBHOOK trigger, with app-webhook URL
  and secret supplied and a piece that has a verification function: when the
  function returns \<^verbatim>\<open>false\<close> the result is unsuccessful with message
  \<^verbatim>\<open>"Webhook is not verified"\<close> and empty output; when it throws, the result is
  unsuccessful with empty output; in both cases \<^verbatim>\<open>executeTrigger\<close> returns (it does
  not throw) and the trigger's run routine is not invoked.
\<close>

theorem run_unverified_app_webhook:
  assumes "triggerName params = Some tn"
    and "loadPiece env (pieceName params) (pieceVersion params) = Some piece"
    and "getTrigger piece tn = Some trigger"
    and "validationErrors env params trigger = []"
    and "hookType params = RUN"
    and "trigger_type trigger = APP_WEBHOOK"
    and "truthy (appWebhookUrl params)" and "truthy (webhookSecret params)"
    and "piece_events piece = Some verify"
  shows "(verify \<lparr>v_appWebhookUrl = the (appWebhookUrl params),
                   v_payload = triggerPayload params,
                   v_webhookSecret = the (webhookSecret params)\<rparr> = Returns False \<longrightarrow>
            executeTrigger env params
              = (Inr (RunResponse False (Some ''Webhook is not verified'') []), [Verify]))
       \<and> (\<forall>m. verify \<lparr>v_appWebhookUrl = the (appWebhookUrl params),
                   v_payload = triggerPayload params,
                   v_webhookSecret = the (webhookSecret params)\<rparr> = Throws m \<longrightarrow>
            executeTrigger env params
              = (Inr (RunResponse False (Some ''Error while verifying webhook'') []), [Verify]))
       \<and> (verify \<lparr>v_appWebhookUrl = the (appWebhookUrl params),
                   v_payload = triggerPayload params,
                   v_webhookSecret = the (webhookSecret params)\<rparr> \<noteq> Returns True \<longrightarrow>
            (\<not> isl (fst (executeTrigger env params)))
            \<and> Run \<notin> set (snd (executeTrigger env params)))"
proof -
  let ?ctx = "\<lparr>v_appWebhookUrl = the (appWebhookUrl params),
                   v_payload = triggerPayload params,
                   v_webhookSecret = the (webhookSecret params)\<rparr>"
  have d: "executeTrigger env params = dispatch env params piece trigger"
    using assms(1-4) by (rule executeTrigger_found)
  have h: "executeTrigger env params
             = (case verify ?ctx of
                  Throws m \<Rightarrow>
                    (Inr (RunResponse False (Some ''Error while verifying webhook'') []), [Verify])
                | Returns verified \<Rightarrow>
                    (if verified = False
                     then (Inr (RunResponse False (Some ''Webhook is not verified'') []), [Verify])
                     else run_items env trigger \<lparr>appListeners = [], scheduleOptions = None\<rparr> [Verify]))"
    using assms(5-9) by (simp add: d dispatch_def run_hook_def)
  show ?thesis
  proof (cases "verify ?ctx")
    case (Throws m)
    then show ?thesis by (simp add: h)
  next
    case (Returns verified)
    then show ?thesis by (cases verified) (simp_all add: h)
  qed
qed

theorem run_unverified_app_webhook_witness:
  "executeTrigger
     (example_engine (example_piece (example_trigger APP_WEBHOOK [] (Returns (JArray [])))
        (Some (\<lambda>c. Returns False))))
     (example_operation RUN)
     = (Inr (RunResponse False (Some ''Webhook is not verified'') []), [Verify])
   \<and> executeTrigger
     (example_engine (example_piece (example_trigger APP_WEBHOOK [] (Returns (JArray [])))
        (Some (\<lambda>c. Throws ''bad signature''))))
     (example_operation RUN)
     = (Inr (RunResponse False (Some ''Error while verifying webhook'') []), [Verify])"
proof -
  let ?t = "example_trigger APP_WEBHOOK [] (Returns (JArray []))"
  let ?vf = "\<lambda>c :: verify_ctx. Returns False"
  let ?vt = "\<lambda>c :: verify_ctx. (Throws ''bad signature'' :: bool outcome)"
  let ?op = "example_operation RUN"
  have ty: "trigger_type ?t = APP_WEBHOOK" by (simp add: example_trigger_def)
  have e1: "piece_events (example_piece ?t (Some ?vf)) = Some ?vf"
    by (simp add: example_piece_def)
  have e2: "piece_events (example_piece ?t (Some ?vt)) = Some ?vt"
    by (simp add: example_piece_def)
  note f = run_unverified_app_webhook
      [of ?op "''new_event''" "example_engine (example_piece ?t (Some ?vf))"
          "example_piece ?t (Some ?vf)" ?t ?vf,
       OF example_found(1) example_found(2) example_found(3) example_found(4) example_found(5)
          ty example_secrets(1) example_secrets(2) e1]
  note g = run_unverified_app_webhook
      [of ?op "''new_event''" "example_engine (example_piece ?t (Some ?vt))"
          "example_piece ?t (Some ?vt)" ?t ?vt,
       OF example_found(1) example_found(2) example_found(3) example_found(4) example_found(5)
          ty example_secrets(1) example_secrets(2) e2]
  from f have a: "executeTrigger (example_engine (example_piece ?t (Some ?vf))) ?op
     = (Inr (RunResponse False (Some ''Webhook is not verified'') []), [Verify])"
    by blast
  from g have b: "executeTrigger (example_engine (example_piece ?t (Some ?vt))) ?op
     = (Inr (RunResponse False (Some ''Error while verifying webhook'') []), [Verify])"
    by blast
  from a b show ?thesis by blast
qed

text \<open>
  Claim C7. For the \<^verbatim>\<open>RUN\<close> hook that reaches the run routine (no app webhook, or
  one that is configured and not rejected by verification), with a run routine
  that returns a value: an array is returned as \<^verbatim>\<open>{success: true, output}\<close>; any
  other value makes \<^verbatim>\<open>executeTrigger\<close> fail with the error that carries the
  \<^verbatim>\<open>typeof\<close> of the value.
\<close>

theorem run_result_must_be_array:
  assumes "triggerName params = Some tn"
    and "loadPiece env (pieceName params) (pieceVersion params) = Some piece"
    and "getTrigger piece tn = Some trigger"
    and "validationErrors env params trigger = []"
    and "hookType params = RUN"
    and "trigger_type trigger = APP_WEBHOOK \<longrightarrow>
           truthy (appWebhookUrl params) \<and> truthy (webhookSecret params)
           \<and> (\<forall>verify. piece_events piece = Some verify \<longrightarrow>
                 verify \<lparr>v_appWebhookUrl = the (appWebhookUrl params),
                         v_payload = triggerPayload params,
                         v_webhookSecret = the (webhookSecret params)\<rparr> = Returns True)"
    and "\<forall>r. SetSchedule r \<in> set (calls (run trigger)) \<longrightarrow> isValidCron env (cronExpression r)"
    and "outcome (run trigger) = Returns items"
  shows "(\<forall>xs. items = JArray xs \<longrightarrow>
            fst (executeTrigger env params) = Inr (RunResponse True None xs))
       \<and> ((\<forall>xs. items \<noteq> JArray xs) \<longrightarrow>
            fst (executeTrigger env params) = Inl (RunNotArray (typeof items)))"
proof -
  let ?st = "\<lparr>appListeners = [], scheduleOptions = None\<rparr>"
  have d: "executeTrigger env params = run_hook env params piece trigger ?st"
    using executeTrigger_found [OF assms(1-4)] assms(5) by (simp add: dispatch_def)
  have "\<exists>tr. run_hook env params piece trigger ?st = run_items env trigger ?st tr"
  proof (cases "trigger_type trigger = APP_WEBHOOK")
    case False
    then show ?thesis by (auto simp: run_hook_def)
  next
    case True
    with assms(6) have u: "truthy (appWebhookUrl params)" and w: "truthy (webhookSecret params)"
      and v: "\<forall>verify. piece_events piece = Some verify \<longrightarrow>
                 verify \<lparr>v_appWebhookUrl = the (appWebhookUrl params),
                         v_payload = triggerPayload params,
                         v_webhookSecret = the (webhookSecret params)\<rparr> = Returns True"
      by simp_all
    show ?thesis
    proof (cases "piece_events piece")
      case None
      with True u w show ?thesis by (auto simp: run_hook_def)
    next
      case (Some verify)
      with v have "verify \<lparr>v_appWebhookUrl = the (appWebhookUrl params),
                         v_payload = triggerPayload params,
                         v_webhookSecret = the (webhookSecret params)\<rparr> = Returns True"
        by simp
      with True u w Some show ?thesis by (auto simp: run_hook_def)
    qed
  qed
  then obtain tr where "executeTrigger env params = run_items env trigger ?st tr"
    using d by auto
  then have r: "fst (executeTrigger env params)
              = (if \<not> isArray items then Inl (RunNotArray (typeof items))
                 else Inr (RunResponse True None (elements items)))"
    by (simp add: run_items_result [OF assms(7) assms(8)])
  show ?thesis
    using r by (auto simp: isArray_iff)
qed

theorem run_result_must_be_array_witness:
  "fst (executeTrigger
     (example_engine (example_piece (example_trigger WEBHOOK [] (Returns (JObject []))) None))
     (example_operation RUN)) = Inl (RunNotArray ''object'')
   \<and> fst (executeTrigger
     (example_engine (example_piece (example_trigger WEBHOOK [] (Returns (JArray []))) None))
     (example_operation RUN)) = Inr (RunResponse True None [])"
proof -
  let ?to = "example_trigger WEBHOOK [] (Returns (JObject []))"
  let ?ta = "example_trigger WEBHOOK [] (Returns (JArray []))"
  let ?op = "example_operation RUN"
  have r1: "trigger_type ?to = APP_WEBHOOK \<longrightarrow>
           truthy (appWebhookUrl ?op) \<and> truthy (webhookSecret ?op)
           \<and> (\<forall>verify. piece_events (example_piece ?to None) = Some verify \<longrightarrow>
                 verify \<lparr>v_appWebhookUrl = the (appWebhookUrl ?op),
                         v_payload = triggerPayload ?op,
                         v_webhookSecret = the (webhookSecret ?op)\<rparr> = Returns True)"
    by (simp add: example_trigger_def)
  have r2: "trigger_type ?ta = APP_WEBHOOK \<longrightarrow>
           truthy (appWebhookUrl ?op) \<and> truthy (webhookSecret ?op)
           \<and> (\<forall>verify. piece_events (example_piece ?ta None) = Some verify \<longrightarrow>
                 verify \<lparr>v_appWebhookUrl = the (appWebhookUrl ?op),
                         v_payload = triggerPayload ?op,
                         v_webhookSecret = the (webhookSecret ?op)\<rparr> = Returns True)"
    by (simp add: example_trigger_def)
  have c1: "\<forall>r. SetSchedule r \<in> set (calls (run ?to))
      \<longrightarrow> isValidCron (example_engine (example_piece ?to None)) (cronExpression r)"
    by (simp add: example_trigger_def)
  have c2: "\<forall>r. SetSchedule r \<in> set (calls (run ?ta))
      \<longrightarrow> isValidCron (example_engine (example_piece ?ta None)) (cronExpression r)"
    by (simp add: example_trigger_def)
  have o1: "outcome (run ?to) = Returns (JObject [])" by (simp add: example_trigger_def)
  have o2: "outcome (run ?ta) = Returns (JArray [])" by (simp add: example_trigger_def)
  note a = run_result_must_be_array
      [OF example_found(1) example_found(2) example_found(3) example_found(4) example_found(5)
          r1 c1 o1]
  note b = run_result_must_be_array
      [OF example_found(1) example_found(2) example_found(3) example_found(4) example_found(5)
          r2 c2 o2]
  from a have a': "fst (executeTrigger (example_engine (example_piece ?to None)) ?op)
      = Inl (RunNotArray ''object'')" by simp
  from b have b': "fst (executeTrigger (example_engine (example_piece ?ta None)) ?op)
      = Inr (RunResponse True None [])" by simp
  from a' b' show ?thesis by blast
qed

text \<open>
  Claim C10. For the \<^verbatim>\<open>RUN\<close> hook on an APP_WEBHOOK trigger, with app-webhook URL
  and secret supplied, of a piece without \<^verbatim>\<open>events\<close>: no verification takes place,
  the run routine is the one routine invoked, and the result is the result for
  the same piece with a verification function that returns \<^verbatim>\<open>true\<close>.
\<close>

theorem run_without_events_skips_verification:
  assumes "triggerName params = Some tn"
    and "loadPiece env (pieceName params) (pieceVersion params) = Some piece"
    and "getTrigger piece tn = Some trigger"
    and "validationErrors env params trigger = []"
    and "hookType params = RUN"
    and "trigger_type trigger = APP_WEBHOOK"
    and "truthy (appWebhookUrl params)" and "truthy (webhookSecret params)"
    and "piece_events piece = None"
  shows "executeTrigger env params
           = run_items env trigger \<lparr>appListeners = [], scheduleOptions = None\<rparr> []
       \<and> snd (executeTrigger env params) = [Run]
       \<and> fst (executeTrigger env params)
           = fst (executeTrigger
                    (env\<lparr>loadPiece := \<lambda>n v. map_option
                            (\<lambda>p. p\<lparr>piece_events := Some (\<lambda>c. Returns True)\<rparr>) (loadPiece env n v)\<rparr>)
                    params)"
proof -
  let ?st = "\<lparr>appListeners = [], scheduleOptions = None\<rparr>"
  let ?env' = "env\<lparr>loadPiece := \<lambda>n v. map_option
                            (\<lambda>p. p\<lparr>piece_events := Some (\<lambda>c. Returns True)\<rparr>) (loadPiece env n v)\<rparr>"
  let ?piece' = "piece\<lparr>piece_events := Some (\<lambda>c. Returns True)\<rparr>"
  have a: "executeTrigger env params = run_items env trigger ?st []"
    using executeTrigger_found [OF assms(1-4)] assms(5-9)
    by (simp add: dispatch_def run_hook_def)
  have t: "snd (run_items env trigger ?st []) = [Run]"
    by (simp add: run_items_def split: prod.splits sum.splits)
  have l': "loadPiece ?env' (pieceName params) (pieceVersion params) = Some ?piece'"
    using assms(2) by simp
  have g': "getTrigger ?piece' tn = Some trigger" using assms(3) by simp
  have v': "validationErrors ?env' params trigger = []" using assms(4) by simp
  have b: "executeTrigger ?env' params = run_items ?env' trigger ?st [Verify]"
    using executeTrigger_found [OF assms(1) l' g' v'] assms(5-8)
    by (simp add: dispatch_def run_hook_def)
  have c: "fst (run_items ?env' trigger ?st [Verify]) = fst (run_items env trigger ?st [])"
    by (simp add: run_items_def split: prod.splits sum.splits)
  show ?thesis using a b c t by simp
qed

theorem run_without_events_skips_verification_witness:
  "snd (executeTrigger
     (example_engine (example_piece (example_trigger APP_WEBHOOK [] (Returns (JArray [JNumber 1]))) None))
     (example_operation RUN)) = [Run]
   \<and> fst (executeTrigger
     (example_engine (example_piece (example_trigger APP_WEBHOOK [] (Returns (JArray [JNumber 1]))) None))
     (example_operation RUN))
     = fst (executeTrigger
         ((example_engine (example_piece
              (example_trigger APP_WEBHOOK [] (Returns (JArray [JNumber 1]))) None))
            \<lparr>loadPiece := \<lambda>n v. map_option (\<lambda>p. p\<lparr>piece_events := Some (\<lambda>c. Returns True)\<rparr>)
               (loadPiece (example_engine (example_piece
                  (example_trigger APP_WEBHOOK [] (Returns (JArray [JNumber 1]))) None)) n v)\<rparr>)
         (example_operation RUN))"
proof -
  let ?t = "example_trigger APP_WEBHOOK [] (Returns (JArray [JNumber 1]))"
  have ty: "trigger_type ?t = APP_WEBHOOK" by (simp add: example_trigger_def)
  have ev: "piece_events (example_piece ?t None) = None" by (simp add: example_piece_def)
  from run_without_events_skips_verification
      [OF example_found(1) example_found(2) example_found(3) example_found(4) example_found(5)
          ty example_secrets(1) example_secrets(2) ev]
  show ?thesis by blast
qed

end
